theory Spec2Isabelle
  imports Main "HOL-Library.Word"
begin

unbundle bit_operations_syntax

section \<open>Helios KWL control (main.cc): data model\<close>

text \<open>
  The program is one C++ file. Its machine integers are modelled by words of the same
  width (\<open>uint8_t\<close>, \<open>uint16_t\<close>, \<open>uint32_t\<close>/\<open>unsigned\<close>, \<open>uint64_t\<close>); the two
  \<open>int\<close> fields of the snapshot (\<open>_fan_level\<close>, \<open>_fan_auto\<close>) only ever hold -1 or
  a byte value and are modelled by \<open>int\<close>. Buffer sizes and indices are \<open>unsigned\<close> in the
  source; they stay below 260 and every subtraction on them is guarded by the source
  (\<open>size < 4\<close> returns first), so they are modelled by \<open>nat\<close>.

  A pointer to bytes (\<open>uint8_t const *\<close>) is modelled by the memory seen from it: a
  function from the offset to the byte stored there. A read past the end of an array is
  undefined behaviour in C; in the model it yields whatever byte the memory function holds
  at that offset, and every theorem below holds for all such contents. Multi-byte reads
  through a cast pointer are little-endian, as on the hosts the program is written for
  (the cue test of \<open>main\<close> relies on it).
\<close>

type_synonym u8 = "8 word"
type_synonym u16 = "16 word"
type_synonym u32 = "32 word"
type_synonym u64 = "64 word"
type_synonym mem = "nat \<Rightarrow> u8"

subsection \<open>The variable catalogue (the anonymous enum and \<open>get_var_name\<close>)\<close>

abbreviation Var_00_calendar_mon :: u8 where "Var_00_calendar_mon \<equiv> 0x00"
abbreviation Var_06_calendar_sun :: u8 where "Var_06_calendar_sun \<equiv> 0x06"
abbreviation Var_08_time_hour_min :: u8 where "Var_08_time_hour_min \<equiv> 0x08"
abbreviation Var_0e_preheat_temp :: u8 where "Var_0e_preheat_temp \<equiv> 0x0e"
abbreviation Var_0f_party_enabled :: u8 where "Var_0f_party_enabled \<equiv> 0x0f"
abbreviation Var_10_party_curr_time :: u8 where "Var_10_party_curr_time \<equiv> 0x10"
abbreviation Var_11_party_time :: u8 where "Var_11_party_time \<equiv> 0x11"
abbreviation Var_14_ext_contact :: u8 where "Var_14_ext_contact \<equiv> 0x14"
abbreviation Var_15_hours_on :: u8 where "Var_15_hours_on \<equiv> 0x15"
abbreviation Var_16_fan_1_voltage :: u8 where "Var_16_fan_1_voltage \<equiv> 0x16"
abbreviation Var_17_fan_2_voltage :: u8 where "Var_17_fan_2_voltage \<equiv> 0x17"
abbreviation Var_18_fan_3_voltage :: u8 where "Var_18_fan_3_voltage \<equiv> 0x18"
abbreviation Var_19_fan_4_voltage :: u8 where "Var_19_fan_4_voltage \<equiv> 0x19"
abbreviation Var_1e_bypass1_temp :: u8 where "Var_1e_bypass1_temp \<equiv> 0x1e"
abbreviation Var_35_fan_level :: u8 where "Var_35_fan_level \<equiv> 0x35"
abbreviation Var_38_change_filter :: u8 where "Var_38_change_filter \<equiv> 0x38"
abbreviation Var_3a_sensors_temp :: u8 where "Var_3a_sensors_temp \<equiv> 0x3a"
abbreviation Var_3b_sensors_co2 :: u8 where "Var_3b_sensors_co2 \<equiv> 0x3b"
abbreviation Var_3c_sensors_humidity :: u8 where "Var_3c_sensors_humidity \<equiv> 0x3c"
abbreviation Var_42_party_level :: u8 where "Var_42_party_level \<equiv> 0x42"
abbreviation Var_49_nachlaufzeit :: u8 where "Var_49_nachlaufzeit \<equiv> 0x49"
abbreviation Var_4f_preheat_enabled :: u8 where "Var_4f_preheat_enabled \<equiv> 0x4f"
abbreviation Var_50_preheat_temp :: u8 where "Var_50_preheat_temp \<equiv> 0x50"
abbreviation Var_54_quiet_curr_time :: u8 where "Var_54_quiet_curr_time \<equiv> 0x54"
abbreviation Var_55_quiet_enabled :: u8 where "Var_55_quiet_enabled \<equiv> 0x55"
abbreviation Var_56_quiet_time :: u8 where "Var_56_quiet_time \<equiv> 0x56"
abbreviation Var_57_quiet_level :: u8 where "Var_57_quiet_level \<equiv> 0x57"
abbreviation Var_60_bypass2_temp :: u8 where "Var_60_bypass2_temp \<equiv> 0x60"

definition get_var_name :: "u32 \<Rightarrow> string" where
  "get_var_name var =
    (if var = 0x00 then ''calendar monday''
     else if var = 0x01 then ''calendar tuesday''
     else if var = 0x02 then ''calendar wednesday''
     else if var = 0x03 then ''calendar thursday''
     else if var = 0x04 then ''calendar friday''
     else if var = 0x05 then ''calendar saturday''
     else if var = 0x06 then ''calendar sunday''
     else if var = 0x07 then ''date month year''
     else if var = 0x08 then ''time hour min''
     else if var = 0x0d then ''back up heating''
     else if var = 0x0e then ''preheating temperatur''
     else if var = 0x0f then ''party enabled''
     else if var = 0x10 then ''party current time''
     else if var = 0x11 then ''party time''
     else if var = 0x14 then ''external contact''
     else if var = 0x15 then ''hours on''
     else if var = 0x16 then ''fan 1 voltage''
     else if var = 0x17 then ''fan 2 voltage''
     else if var = 0x18 then ''fan 3 voltage''
     else if var = 0x19 then ''fan 4 voltage''
     else if var = 0x1a then ''vacation start''
     else if var = 0x1b then ''vacation end''
     else if var = 0x1e then ''bypass1 temperature''
     else if var = 0x1f then ''frostschutz''
     else if var = 0x21 then ''week offset co2''
     else if var = 0x22 then ''week offset humdty''
     else if var = 0x23 then ''week offset temp''
     else if var = 0x35 then ''fan level''
     else if var = 0x37 then ''minimum fan level''
     else if var = 0x38 then ''change filter''
     else if var = 0x3a then ''sensors temperature''
     else if var = 0x3b then ''sensors co2''
     else if var = 0x3c then ''sensors humidity''
     else if var = 0x42 then ''party level''
     else if var = 0x45 then ''zuluft level''
     else if var = 0x46 then ''abluft level''
     else if var = 0x48 then ''software version''
     else if var = 0x49 then ''nachlaufzeit''
     else if var = 0x4e then ''vacation enabled''
     else if var = 0x4f then ''preheating enabled''
     else if var = 0x50 then ''preheating temperature''
     else if var = 0x52 then ''week offset enabled''
     else if var = 0x54 then ''quiet current time''
     else if var = 0x55 then ''quiet enabled''
     else if var = 0x56 then ''quiet time''
     else if var = 0x57 then ''quiet_level''
     else if var = 0x60 then ''bypass2 temperature''
     else ''unknown'')"

subsection \<open>What the program does to the outside\<close>

text \<open>
  Every function that writes to the serial port or prints returns the list of its effects,
  in order. \<open>Write bs\<close> is one \<open>write\<close> call on the serial port with the bytes \<open>bs\<close>;
  \<open>Sleep ms\<close> is \<open>sleep_ms\<close>; \<open>Print tag args\<close> is one \<open>printf\<close>, named by a tag, with
  its arguments (escape sequences and layout are left out); \<open>Dump prefix bs\<close> is
  \<open>Paket::print\<close>, which prints the prefix and the bytes \<open>bs\<close> in hexadecimal;
  \<open>Unlink f\<close> is \<open>unlink\<close> on the lock file.
\<close>

datatype arg = N int | S string

datatype out =
    Write "u8 list"
  | Sleep nat
  | Print string "arg list"
  | Dump string "u8 list"
  | Unlink string

text \<open>The byte sequences handed to \<open>write\<close>, in order: the frames sent on the bus.\<close>

fun writes_of :: "out list \<Rightarrow> u8 list list" where
  "writes_of [] = []"
| "writes_of (Write bs # os) = bs # writes_of os"
| "writes_of (Sleep n # os) = writes_of os"
| "writes_of (Print t a # os) = writes_of os"
| "writes_of (Dump t bs # os) = writes_of os"
| "writes_of (Unlink f # os) = writes_of os"

subsection \<open>class Paket\<close>

record paket =
  pbuf :: mem
  psize :: nat
  p_is_valid :: bool

text \<open>\<open>Paket::is_valid_checksum\<close>: the sum of the first \<open>_size - 1\<close> bytes plus one, in
  \<open>uint8_t\<close> arithmetic, compared with the last byte.\<close>

definition is_valid_checksum :: "mem \<Rightarrow> nat \<Rightarrow> bool" where
  "is_valid_checksum b sz = (sum_list (map b [0..<sz - 1]) + 1 = b (sz - 1))"

text \<open>\<open>Paket::new_paket\<close>. The pointer is never null in this program, so the test
  \<open>_buf\<close> of the source is always true.\<close>

definition new_paket :: "mem \<Rightarrow> nat \<Rightarrow> paket" where
  "new_paket b sz =
    (if sz \<ge> 4 then
       (let sz' = (if sz > 4 + unat (b 2) then 4 + unat (b 2) else sz)
        in \<lparr>pbuf = b, psize = sz', p_is_valid = is_valid_checksum b sz'\<rparr>)
     else \<lparr>pbuf = b, psize = sz, p_is_valid = False\<rparr>)"

definition raw :: "paket \<Rightarrow> u8 list" where
  "raw p = map (pbuf p) [0..<psize p]"

definition u8_at :: "paket \<Rightarrow> nat \<Rightarrow> u8" where
  "u8_at p i = (if i < psize p then pbuf p (4 + i) else 0)"

definition le16 :: "mem \<Rightarrow> nat \<Rightarrow> u16" where
  "le16 b i = ucast (b i) OR push_bit 8 (ucast (b (i + 1)))"

definition le32 :: "mem \<Rightarrow> nat \<Rightarrow> u32" where
  "le32 b i = ucast (b i) OR push_bit 8 (ucast (b (i + 1)))
                OR push_bit 16 (ucast (b (i + 2))) OR push_bit 24 (ucast (b (i + 3)))"

definition u16_at :: "paket \<Rightarrow> nat \<Rightarrow> u16" where
  "u16_at p i = (if i + 4 + 2 * i < psize p then le16 (pbuf p) (4 + 2 * i) else 0)"

definition u32_at :: "paket \<Rightarrow> nat \<Rightarrow> u32" where
  "u32_at p i = (if i + 4 + 4 * i < psize p then le32 (pbuf p) (4 + 4 * i) else 0)"

definition dsize :: "paket \<Rightarrow> u8" where
  "dsize p = pbuf p 2"

definition is_start_status :: "paket \<Rightarrow> bool" where
  "is_start_status p = (pbuf p 0 = 0xff \<and> pbuf p 1 = 0xff)"

definition is_start_addr :: "paket \<Rightarrow> bool" where
  "is_start_addr p = (p_is_valid p \<and> pbuf p 0 \<ge> 0x10 \<and> pbuf p 0 \<le> 0x13)"

definition is_ping :: "paket \<Rightarrow> u8 \<Rightarrow> bool" where
  "is_ping p b0 = (p_is_valid p \<and> pbuf p 0 = b0 \<and> pbuf p 1 = 0 \<and> dsize p = 0)"

definition is_status :: "paket \<Rightarrow> u8 \<Rightarrow> u8 \<Rightarrow> bool" where
  "is_status p idx sz = (p_is_valid p \<and> pbuf p 1 = 1 \<and> dsize p = sz \<and> pbuf p 3 = idx)"

definition is_ack_10 :: "paket \<Rightarrow> bool" where
  "is_ack_10 p = (p_is_valid p \<and> pbuf p 0 = 0x10 \<and> pbuf p 1 = 5
                    \<and> dsize p = 2 \<and> pbuf p 4 = 0x55)"

definition is_request :: "paket \<Rightarrow> u8 \<Rightarrow> bool" where
  "is_request p idx = (p_is_valid p \<and> pbuf p 1 = 0 \<and> dsize p = 1 \<and> pbuf p 3 = idx)"

definition is_fan_no_change :: "paket \<Rightarrow> bool" where
  "is_fan_no_change p = (p_is_valid p \<and> pbuf p 1 = 1 \<and> dsize p = 3
        \<and> pbuf p 3 = Var_35_fan_level \<and> pbuf p 4 = 0xaa \<and> pbuf p 5 = 0xbb)"

text \<open>
  The fields of a frame as the protocol comment at the head of the source lays them out:
  device address, kind, variable index, and the value bytes between the index and the
  checksum.
\<close>

definition frame_fields :: "paket \<Rightarrow> u8 \<times> u8 \<times> u8 \<times> u8 list" where
  "frame_fields p = (pbuf p 0, pbuf p 1, pbuf p 3, map (pbuf p) [4..<psize p - 1])"

text \<open>The memory \<open>m\<close> starts with the bytes \<open>bs\<close>.\<close>

definition holds :: "mem \<Rightarrow> u8 list \<Rightarrow> bool" where
  "holds m bs = (map m [0..<length bs] = bs)"

text \<open>\<open>Paket::print\<close>: the prefix, then the first \<open>_size\<close> bytes, without the last one
  when the checksum is suppressed.\<close>

definition print :: "paket \<Rightarrow> string \<Rightarrow> bool \<Rightarrow> out" where
  "print p prefix suppress_chksum =
     Dump prefix (map (pbuf p) [0..<psize p - (if suppress_chksum then 1 else 0)])"

subsection \<open>class Kwl: the snapshot and the pending intents\<close>

text \<open>
  The record holds the fields of \<open>Kwl\<close>, the static counter \<open>our_cnt\<close> of
  \<open>Kwl::our_turn\<close> and the two file-level flags \<open>_terminate\<close> and \<open>_interactive\<close>.
  The file descriptor \<open>_sp\<close> is left out: the result of each \<open>read\<close> and \<open>write\<close> on it
  is an input of the model.
\<close>

record kwl =
  pkt :: paket
  temp :: "u16 list"
  pakets_received :: u64
  first_frame :: bool
  status_buf :: "u8 list"
  fan_level :: int
  fan_auto :: int
  bypass :: u16
  party :: u16
  quiet :: u16
  opt_do_loop :: bool
  opt_set_time :: u16
  opt_set_bypass :: u16
  opt_set_fan :: u16
  opt_set_party :: u16
  opt_set_quiet :: u16
  opt_set_voltage :: u32
  opt_get_bypass :: u32
  opt_get_cal :: u32
  opt_get_hours_on :: bool
  opt_get_party_enabled :: bool
  opt_get_party_time :: bool
  opt_get_party_level :: bool
  opt_get_quiet_enabled :: bool
  opt_get_quiet_time :: bool
  opt_get_quiet_level :: bool
  opt_get_voltage :: u32
  opt_get_preheating :: u32
  opt_get_run_on_time :: bool
  opt_get_filter_time :: bool
  opt_verbose :: bool
  initial_temp :: bool
  our_cnt :: u32
  terminate :: bool
  interactive :: bool

text \<open>The state after the constructor of \<open>Kwl\<close> and the static initialisers.\<close>

definition kwl_init :: kwl where
  "kwl_init =
    \<lparr>pkt = \<lparr>pbuf = (\<lambda>i. 0), psize = 0, p_is_valid = False\<rparr>,
     temp = [9990, 9990, 9990, 9990],
     pakets_received = 0,
     first_frame = True,
     status_buf = replicate 27 0,
     fan_level = -1,
     fan_auto = -1,
     bypass = 0xffff,
     party = 0,
     quiet = 0,
     opt_do_loop = False,
     opt_set_time = 0,
     opt_set_bypass = 0,
     opt_set_fan = 0,
     opt_set_party = 0,
     opt_set_quiet = 0,
     opt_set_voltage = 0,
     opt_get_bypass = 0,
     opt_get_cal = 0,
     opt_get_hours_on = False,
     opt_get_party_enabled = False,
     opt_get_party_time = False,
     opt_get_party_level = False,
     opt_get_quiet_enabled = False,
     opt_get_quiet_time = False,
     opt_get_quiet_level = False,
     opt_get_voltage = 0,
     opt_get_preheating = 0,
     opt_get_run_on_time = False,
     opt_get_filter_time = False,
     opt_verbose = False,
     initial_temp = True,
     our_cnt = 0,
     terminate = False,
     interactive = False\<rparr>"

subsection \<open>Sending\<close>

text \<open>
  \<open>Kwl::send_frame\<close>. \<open>written\<close> is what the \<open>write\<close> call returns. The callers pass an
  array and its \<open>sizeof\<close>, so \<open>sz\<close> (the parameter \<open>size\<close>) is the length of \<open>buf\<close>. The \<open>print\<close> at the end
  of the source is guarded by \<open>&& false\<close> and never runs.
\<close>

definition send_frame :: "int \<Rightarrow> u8 list \<Rightarrow> u8 \<Rightarrow> out list" where
  "send_frame written buf sz =
    (if sz < 4 then [Print ''snd_frame: Invalid size!'' []]
     else
       (let buf1 = buf[2 := sz - 4];
            chksum = sum_list (take (unat sz - 1) buf1) + 1;
            buf2 = buf1[unat sz - 1 := chksum]
        in [Sleep 5, Write (take (unat sz) buf2)]
           @ (if written \<noteq> uint sz
              then [Print ''snd_frame: Sent != bytes!'' [N written, N (uint sz)]]
              else [])))"

definition send_get_var :: "int \<Rightarrow> u8 \<Rightarrow> out list" where
  "send_get_var written idx = send_frame written [0x13, 0, 1, idx, 0] 5"

definition send_set_var_8bit :: "int \<Rightarrow> u8 \<Rightarrow> u8 \<Rightarrow> out list" where
  "send_set_var_8bit written idx val = send_frame written [0x13, 1, 2, idx, val, 0] 6"

definition send_set_var_16bit :: "int \<Rightarrow> u8 \<Rightarrow> u16 \<Rightarrow> out list" where
  "send_set_var_16bit written idx val =
     send_frame written [0x13, 1, 3, idx, ucast (val mod 256), ucast (val div 256), 0] 7"

definition send_set_var_32bit :: "int \<Rightarrow> u8 \<Rightarrow> u32 \<Rightarrow> out list" where
  "send_set_var_32bit written idx val =
     send_frame written
       [0x13, 1, 5, idx,
        ucast (val AND 0xff),
        ucast (drop_bit 8 val AND 0xff),
        ucast (drop_bit 16 val AND 0xff),
        ucast (drop_bit 24 val AND 0xff), 0] 9"

subsection \<open>The command sequencer: \<open>Kwl::our_turn\<close>\<close>

text \<open>
  One call of \<open>our_turn\<close>: the state after it and its effects. The branches are those of
  the source, in its order; a \<open>return\<close> inside a branch ends the call with the state
  unchanged apart from the counter.
\<close>

definition our_turn :: "int \<Rightarrow> kwl \<Rightarrow> kwl \<times> out list" where
  "our_turn written k0 =
    (let k = k0\<lparr>our_cnt := our_cnt k0 + 1\<rparr> in
     if our_cnt k < 2 then (k, [])
     else if initial_temp k then
       (k\<lparr>initial_temp := False\<rparr>, send_get_var written Var_3a_sensors_temp)
     else if opt_set_time k \<noteq> 0 then
       (k\<lparr>opt_set_time := 0\<rparr>,
        send_set_var_16bit written Var_08_time_hour_min (opt_set_time k))
     else if opt_set_bypass k \<noteq> 0 then
       (if opt_set_bypass k = 0xffff then
          (if bypass k = 0xffff then (k, [])
           else
             (let b = (if bypass k < 200 then 28 else 18)
              in (k\<lparr>opt_set_bypass := 0\<rparr>,
                  send_set_var_16bit written Var_1e_bypass1_temp (b * 10))))
        else
          (k\<lparr>opt_set_bypass := 0\<rparr>,
           send_set_var_16bit written Var_1e_bypass1_temp (opt_set_bypass k * 10)))
     else if opt_set_fan k \<noteq> 0 then
       (if opt_set_fan k = 0xe000 \<or> opt_set_fan k = 0xf000 then
          (let change = (if opt_set_fan k = 0xf000 then 1 else - 1 :: int) in
           if fan_level k = - 1 then (k, [])
           else if (change = - 1 \<and> (fan_level k < 2 \<or> fan_level k > 4))
                 \<or> (change = 1 \<and> (fan_level k < 1 \<or> fan_level k > 3)) then
             (k\<lparr>opt_set_fan := 0\<rparr>, [])
           else if fan_auto k \<noteq> 0 then
             (k\<lparr>opt_set_fan := word_of_int (fan_level k + change),
                fan_level := - 1, fan_auto := - 1\<rparr>,
              send_set_var_16bit written Var_35_fan_level 0x00aa)
           else
             (k\<lparr>opt_set_fan := 0, fan_level := - 1, fan_auto := - 1\<rparr>,
              send_set_var_16bit written Var_35_fan_level
                (word_of_int (0xbb00 + fan_level k + change))))
        else if opt_set_fan k = 0xaa then
          (k\<lparr>opt_set_fan := 0\<rparr>, send_set_var_16bit written Var_35_fan_level 0x01aa)
        else if opt_set_fan k AND 0x100 \<noteq> 0 then
          (k\<lparr>opt_set_fan := opt_set_fan k AND NOT 0x100\<rparr>,
           send_set_var_16bit written Var_35_fan_level 0x00aa)
        else
          (k\<lparr>opt_set_fan := 0\<rparr>,
           send_set_var_16bit written Var_35_fan_level (0xbb00 + opt_set_fan k)))
     else if opt_set_party k \<noteq> 0 then
       (if opt_set_party k = 0xaa00 then
          (k\<lparr>opt_set_party := 0\<rparr>, send_set_var_8bit written Var_0f_party_enabled 0)
        else if opt_set_party k = 0xaa01 then
          (k\<lparr>opt_set_party := 0\<rparr>, send_set_var_8bit written Var_0f_party_enabled 1)
        else
          (k\<lparr>opt_set_party := 0xaa01\<rparr>,
           send_set_var_16bit written Var_11_party_time (opt_set_party k)))
     else if opt_set_quiet k \<noteq> 0 then
       (if opt_set_quiet k = 0xaa00 then
          (k\<lparr>opt_set_quiet := 0\<rparr>, send_set_var_8bit written Var_55_quiet_enabled 0)
        else if opt_set_quiet k = 0xaa01 then
          (k\<lparr>opt_set_quiet := 0\<rparr>, send_set_var_8bit written Var_55_quiet_enabled 1)
        else
          (k\<lparr>opt_set_quiet := 0xaa01\<rparr>,
           send_set_var_16bit written Var_56_quiet_time (opt_set_quiet k)))
     else if opt_set_voltage k \<noteq> 0 then
       (k\<lparr>opt_set_voltage := 0\<rparr>,
        send_set_var_32bit written
          (ucast (ucast Var_16_fan_1_voltage - 1 + (opt_set_voltage k AND 0xf)))
          (drop_bit 16 (opt_set_voltage k) OR (opt_set_voltage k AND 0xffff0000)))
     else if opt_get_bypass k = 2 then
       (k\<lparr>opt_get_bypass := opt_get_bypass k - 1\<rparr>,
        send_get_var written Var_60_bypass2_temp)
     else if opt_get_bypass k = 1 then
       (k\<lparr>opt_get_bypass := opt_get_bypass k - 1\<rparr>,
        send_get_var written Var_1e_bypass1_temp)
     else if opt_get_hours_on k then
       (k\<lparr>opt_get_hours_on := False\<rparr>, send_get_var written Var_15_hours_on)
     else if opt_get_voltage k \<noteq> 0 then
       (k\<lparr>opt_get_voltage := opt_get_voltage k - 1\<rparr>,
        if opt_get_voltage k < 5
        then send_get_var written
               (ucast (ucast Var_19_fan_4_voltage + 1 - opt_get_voltage k))
        else [])
     else if opt_get_party_enabled k then
       (k\<lparr>opt_get_party_enabled := False\<rparr>, send_get_var written Var_10_party_curr_time)
     else if opt_get_party_time k then
       (k\<lparr>opt_get_party_time := False\<rparr>, send_get_var written Var_11_party_time)
     else if opt_get_party_level k then
       (k\<lparr>opt_get_party_level := False\<rparr>, send_get_var written Var_42_party_level)
     else if opt_get_quiet_enabled k then
       (k\<lparr>opt_get_quiet_enabled := False\<rparr>, send_get_var written Var_54_quiet_curr_time)
     else if opt_get_quiet_time k then
       (k\<lparr>opt_get_quiet_time := False\<rparr>, send_get_var written Var_56_quiet_time)
     else if opt_get_quiet_level k then
       (k\<lparr>opt_get_quiet_level := False\<rparr>, send_get_var written Var_57_quiet_level)
     else if opt_get_cal k \<noteq> 0 then
       (k\<lparr>opt_get_cal := 0\<rparr>,
        send_get_var written (ucast (ucast Var_00_calendar_mon + opt_get_cal k - 1)))
     else if opt_get_preheating k \<noteq> 0 then
       (k\<lparr>opt_get_preheating := opt_get_preheating k - 1\<rparr>,
        if opt_get_preheating k = 2 then send_get_var written Var_4f_preheat_enabled
        else if opt_get_preheating k = 1 then send_get_var written Var_50_preheat_temp
        else [])
     else if opt_get_run_on_time k then
       (k\<lparr>opt_get_run_on_time := False\<rparr>, send_get_var written Var_49_nachlaufzeit)
     else if opt_get_filter_time k then
       (k\<lparr>opt_get_filter_time := False\<rparr>, send_get_var written Var_38_change_filter)
     else if \<not> opt_do_loop k then (k\<lparr>terminate := True\<rparr>, [])
     else if our_cnt k mod 4 = 3 then (k, send_get_var written Var_3a_sensors_temp)
     else if party k \<noteq> 0 \<and> our_cnt k mod 8 = 2 then
       (k, send_get_var written Var_10_party_curr_time)
     else if quiet k \<noteq> 0 \<and> our_cnt k mod 8 = 2 then
       (k, send_get_var written Var_54_quiet_curr_time)
     else (k, []))"

text \<open>
  The conditions that guard the setter branches and the getter branches of \<open>our_turn\<close>,
  all false: no write intent (nor the initial temperature request) is pending, and no
  intent at all is pending.
\<close>

definition no_write_pending :: "kwl \<Rightarrow> bool" where
  "no_write_pending k =
     (\<not> initial_temp k \<and> opt_set_time k = 0 \<and> opt_set_bypass k = 0 \<and> opt_set_fan k = 0
      \<and> opt_set_party k = 0 \<and> opt_set_quiet k = 0 \<and> opt_set_voltage k = 0)"

definition no_pending :: "kwl \<Rightarrow> bool" where
  "no_pending k =
     (no_write_pending k \<and> opt_get_bypass k \<noteq> 2 \<and> opt_get_bypass k \<noteq> 1
      \<and> \<not> opt_get_hours_on k \<and> opt_get_voltage k = 0
      \<and> \<not> opt_get_party_enabled k \<and> \<not> opt_get_party_time k \<and> \<not> opt_get_party_level k
      \<and> \<not> opt_get_quiet_enabled k \<and> \<not> opt_get_quiet_time k \<and> \<not> opt_get_quiet_level k
      \<and> opt_get_cal k = 0 \<and> opt_get_preheating k = 0
      \<and> \<not> opt_get_run_on_time k \<and> \<not> opt_get_filter_time k)"

subsection \<open>Decoding: \<open>Kwl::print_paket\<close> and \<open>Kwl::got_frame\<close>\<close>

definition volume_flow :: "u8 \<Rightarrow> int" where
  "volume_flow v =
    (if v < 1 then 0
     else if v < 24 then 60
     else if v < 30 then 80
     else if v < 37 then 100
     else if v < 43 then 120
     else if v < 50 then 140
     else if v < 56 then 160
     else if v < 63 then 180
     else if v < 69 then 200
     else if v < 76 then 220
     else if v < 82 then 240
     else if v < 89 then 260
     else if v < 95 then 280
     else if v < 100 then 300
     else 315)"

text \<open>\<open>Paket::print_got_co2\<close> and \<open>Paket::print_got_humidity\<close>: four 16-bit values read
  from offset 4 on, without a bound check, each printed unless it is the "no sensor"
  value.\<close>

definition print_got :: "string \<Rightarrow> u16 \<Rightarrow> paket \<Rightarrow> out" where
  "print_got tag none p =
     Print tag (concat (map (\<lambda>i. let v = le16 (pbuf p) (4 + 2 * i)
                                  in if v \<noteq> none then [N (uint (v div 10)), N (uint (v mod 10))]
                                     else [])
                            [0..<4]))"

text \<open>
  \<open>Paket::print_status\<close>. The cursor movement around the status line and the progress
  character (the static counter \<open>progress\<close>) are terminal handling and are left out; the
  printed fields are kept. As in the source, sensor \<open>i\<close> decides whether sensor
  \<open>temp_idx[i]\<close> is printed.
\<close>

definition print_status :: "paket \<Rightarrow> u16 list \<Rightarrow> u16 \<Rightarrow> u16 \<Rightarrow> u16 \<Rightarrow> out list" where
  "print_status p tmp byp prt qui =
    (if psize p \<noteq> 27 then [Print ''wrong broadcast size'' [N (int (psize p))]]
     else
       [Print ''status''
         ([N (uint (pbuf p 4)), N (uint (pbuf p 3)), N (uint (pbuf p 5)), N (uint (pbuf p 6)),
           N (uint (pbuf p 7)), N (uint (pbuf p 8)),
           S (if pbuf p 10 \<noteq> 0 then ''auto'' else ''MANUAL''), N (uint (pbuf p 9))]
          @ concat (map (\<lambda>i. if tmp ! i \<noteq> 9990
                              then (let j = [0, 3, 1, 2] ! i
                                    in [N (int j), N (uint (tmp ! j div 10)),
                                        N (uint (tmp ! j mod 10))])
                              else [])
                        [0..<4])
          @ (if byp \<noteq> 0xffff
             then [S ''bypass'', N (uint (byp div 10)), N (uint (byp mod 10))] else [])
          @ (if prt \<noteq> 0 then [S ''party'', N (uint prt)] else [])
          @ (if qui \<noteq> 0 then [S ''quiet'', N (uint qui)] else []))])"

text \<open>
  \<open>Kwl::print_paket\<close>, on the packet \<open>_p\<close> of the state: the snapshot fields it
  updates and what it prints. \<open>time\<close> is the measured gap in nanoseconds (not negative).
  The branch \<open>else if (false)\<close> of the source never runs.
\<close>

definition print_paket :: "int \<Rightarrow> kwl \<Rightarrow> kwl \<times> out list" where
  "print_paket time k =
    (let p = pkt k; buf = pbuf p in
     if \<not> opt_verbose k
        \<and> (is_ping p 0x10 \<or> is_ping p 0x11 \<or> is_ping p 0x12 \<or> is_ping p 0x13
           \<or> is_request p Var_35_fan_level
           \<or> is_request p Var_3a_sensors_temp
           \<or> is_request p Var_3b_sensors_co2
           \<or> is_request p Var_3c_sensors_humidity
           \<or> is_ack_10 p
           \<or> is_fan_no_change p)
     then (k, [])
     else if buf 1 = 5 \<and> dsize p = 2 \<and> buf 4 = 0x55 then
       (k, [Print ''ack written'' [S (get_var_name (ucast (buf 3))), N (uint (buf 3))]])
     else if buf 1 = 1 \<and> dsize p = 28 \<and> buf 3 \<le> Var_06_calendar_sun then
       (k, [Print ''calendar''
              (concat (map (\<lambda>i. [N (uint (buf (i + 7) AND 0xf)),
                                  N (uint (drop_bit 4 (buf (i + 7))))])
                           [0..<24]))])
     else if is_status p Var_0e_preheat_temp 3 then
       (k, [Print ''pre-heating temperature''
              [N (uint (u16_at p 0 div 10)), N (uint (u16_at p 0 mod 10))]])
     else if is_status p Var_10_party_curr_time 3 then
       (let prt = u16_at p 0 in
        (k\<lparr>party := prt\<rparr>,
         if \<not> interactive k
         then (if prt = 0 then [Print ''party disabled'' []]
               else [Print ''party enabled for min'' [N (uint prt)]])
         else []))
     else if is_status p Var_11_party_time 3 then
       (k, [Print ''party time'' [N (uint (u16_at p 0))]])
     else if is_status p Var_15_hours_on 5 then
       (let h = u32_at p 0 in
        (k, [Print ''hours on''
               [N (uint h), N (uint (((h * 10) div (365 * 24)) div 10)),
                N (uint (((h * 10) div (365 * 24)) mod 10))]]))
     else if buf 1 = 1 \<and> dsize p = 5
             \<and> buf 3 \<ge> Var_16_fan_1_voltage \<and> buf 3 \<le> Var_19_fan_4_voltage then
       (k, [Print ''voltage fan''
              [N (uint (buf 3) - 0x15),
               N (uint (u16_at p 0 div 10)), N (uint (u16_at p 0 mod 10)),
               N (volume_flow (ucast (u16_at p 0))),
               N (uint (u16_at p 1 div 10)), N (uint (u16_at p 1 mod 10)),
               N (volume_flow (ucast (u16_at p 1)))]])
     else if is_status p Var_1e_bypass1_temp 3 then
       (let byp = u16_at p 0 in
        (k\<lparr>bypass := byp\<rparr>,
         if \<not> interactive k
         then [Print ''bypass1'' [N (uint (byp div 10)), N (uint (byp mod 10))]]
         else []))
     else if is_status p Var_35_fan_level 3 then
       (k, if is_fan_no_change p then [Print ''fan no change'' []]
           else if u8_at p 0 = 0xaa \<and> u8_at p 1 = 0 then [Print ''set fan MANUAL'' []]
           else if u8_at p 0 = 0xaa \<and> u8_at p 1 = 1 then [Print ''set fan AUTO'' []]
           else if u8_at p 0 = 0xaa then
             [Print ''set fan AUTO/MANUAL'' [N (uint (u8_at p 1))]]
           else if u8_at p 1 = 0xbb then [Print ''set fan LEVEL'' [N (uint (u8_at p 0))]]
           else [Print ''set fan LEVEL'' [N (uint (u8_at p 0)), N (uint (u8_at p 1))]])
     else if is_status p Var_38_change_filter 2 then
       (k, [Print ''change filter'' [N (uint (u8_at p 0))]])
     else if is_status p Var_3a_sensors_temp 21 then
       (k\<lparr>temp := map (\<lambda>i. u16_at p (1 + i)) [0..<4]\<rparr>, [])
     else if is_status p Var_3b_sensors_co2 9 then (k, [print_got ''CO2'' 9999 p])
     else if is_status p Var_3c_sensors_humidity 9 then (k, [print_got ''humidity'' 999 p])
     else if is_status p Var_42_party_level 2 then
       (k, [Print ''party level'' [N (uint (u8_at p 0))]])
     else if is_status p Var_49_nachlaufzeit 2 then
       (k, [Print ''nachlaufzeit'' [N (uint (u8_at p 0))]])
     else if is_status p Var_4f_preheat_enabled 2 then
       (k, [Print ''pre-heating'' [S (if u8_at p 0 \<noteq> 0 then ''enabled'' else ''disabled'')]])
     else if is_status p Var_54_quiet_curr_time 3 then
       (let qui = u16_at p 0 in
        (k\<lparr>quiet := qui\<rparr>,
         if \<not> interactive k
         then (if qui = 0 then [Print ''quiet disabled'' []]
               else [Print ''quiet enabled for min'' [N (uint qui)]])
         else []))
     else if is_status p Var_55_quiet_enabled 2 then
       (k, [Print ''set quiet''
              [S (if u8_at p 0 \<noteq> 0 then ''enabled'' else ''disabled''), N (uint (u8_at p 0))]])
     else if is_status p Var_56_quiet_time 2 then
       (k, [Print ''quiet time'' [N (uint (u8_at p 0))]])
     else if is_status p Var_57_quiet_level 2 then
       (k, [Print ''quiet level'' [N (uint (u8_at p 0))]])
     else if is_status p Var_60_bypass2_temp 2 then
       (k, [Print ''bypass2'' [N (uint (u8_at p 0))]])
     else if buf 0 = 0xff \<and> buf 1 = 0xff then
       (k\<lparr>fan_level := uint (buf 9), fan_auto := (if buf 10 > 0 then 1 else 0)\<rparr>,
        print_status p (temp k) (bypass k) (party k) (quiet k))
     else
       (k, [Print ''ms'' [N (time div 1000000), N (uint (buf 0))],
            print p ''uninterpreted'' True]))"

text \<open>
  \<open>Kwl::got_frame\<close>: the loop over the frames packed in \<open>buf\<close>, as a recursion on the
  rest of the buffer. \<open>b\<close> is the memory from the cursor on and \<open>sz\<close> the number of bytes
  left (the parameters \<open>buf\<close> and \<open>size\<close>, advanced by \<open>_p.size()\<close> each round).
\<close>

function got_frame :: "int \<Rightarrow> mem \<Rightarrow> nat \<Rightarrow> kwl \<Rightarrow> kwl \<times> out list" where
  "got_frame time b sz k =
    (if sz < 4 then (k, [])
     else
       (let p = new_paket b sz; k1 = k\<lparr>pkt := p\<rparr> in
        if \<not> p_is_valid p then
          (if \<not> first_frame k1 then (k1, [print p ''ignoring'' False])
           else (k1\<lparr>first_frame := False\<rparr>, []))
        else
          (let k2 = k1\<lparr>first_frame := False, pakets_received := pakets_received k1 + 1\<rparr> in
           if \<not> is_start_status p \<and> \<not> is_start_addr p then
             (k2, if \<not> is_ping p 0x31 \<and> \<not> is_ping p 0x32
                     \<and> \<not> is_ping p 0x34 \<and> \<not> is_ping p 0x38
                     \<and> \<not> is_ping p 0x41 \<and> \<not> is_ping p 0x42
                     \<and> \<not> is_ping p 0x44 \<and> \<not> is_ping p 0x48
                     \<and> \<not> is_ping p 0x51 \<and> \<not> is_ping p 0x52
                     \<and> \<not> is_ping p 0x54 \<and> \<not> is_ping p 0x58
                  then [Print ''ms'' [N (time div 1000000)], print p ''unknown'' True]
                  else [])
           else
             (let k3 = (if is_start_status p then k2\<lparr>status_buf := map b [0..<27]\<rparr> else k2);
                  r1 = print_paket time k3;
                  r2 = got_frame time (\<lambda>i. b (psize p + i)) (sz - psize p) (fst r1)
              in (fst r2, snd r1 @ snd r2)))))"
  by pat_completeness auto

termination
proof (relation "measure (\<lambda>(time, b, sz, k). sz)")
  show "wf (measure (\<lambda>(time, b, sz, k). sz))" by simp
next
  fix time :: int and b :: mem and sz :: nat and k :: kwl and p :: paket
    and r1 :: "kwl \<times> out list"
  assume "\<not> sz < 4" and "p = new_paket b sz"
  then have "0 < psize p" and "0 < sz"
    by (simp_all add: new_paket_def Let_def)
  then show "((time, \<lambda>i. b (psize p + i), sz - psize p, fst r1), time, b, sz, k)
             \<in> measure (\<lambda>(time, b, sz, k). sz)"
    by simp
qed

declare got_frame.simps [simp del]

text \<open>\<open>Kwl::print_last_status\<close>.\<close>

definition print_last_status :: "kwl \<Rightarrow> kwl \<times> out list" where
  "print_last_status k =
    (if status_buf k ! 2 \<noteq> 0
     then print_paket 0 (k\<lparr>pkt := new_paket (\<lambda>i. status_buf k ! i) 27\<rparr>)
     else (k, []))"

subsection \<open>The driver loop of \<open>main\<close>\<close>

text \<open>
  One round of the \<open>do ... while\<close> loop is driven by what the outside delivers during it:
  the result of the blocking \<open>uart_read\<close> (\<open>None\<close> when it fails), the characters that
  have become available on standard input, the time measured around the read, the value
  a \<open>write\<close> on the serial port returns should the round call it, and whether the signal
  handler has set \<open>_terminate\<close> by the end of the round.
\<close>

record event =
  ev_byte :: "u8 option"
  ev_typed :: "u8 list"
  ev_dt :: int
  ev_written :: int
  ev_sigint :: bool

text \<open>A round in which the byte \<open>c\<close> is read \<open>dt\<close> nanoseconds after the round began,
  no key is typed, no signal arrives, and a \<open>write\<close> would return \<open>w\<close>.\<close>

definition rx :: "u8 \<Rightarrow> int \<Rightarrow> int \<Rightarrow> event" where
  "rx c dt w = \<lparr>ev_byte = Some c, ev_typed = [], ev_dt = dt, ev_written = w, ev_sigint = False\<rparr>"

text \<open>The locals of \<open>main\<close> that live across rounds, the \<open>Kwl\<close> object and the unread
  characters of standard input.\<close>

record loop_state =
  l_kwl :: kwl
  l_idx :: nat
  l_buf :: mem
  l_stdin :: "u8 list"

text \<open>\<open>try_getchar\<close>: a non-blocking read of one character, 0 when there is none.\<close>

fun try_getchar :: "u8 list \<Rightarrow> u8 \<times> u8 list" where
  "try_getchar [] = (0, [])"
| "try_getchar (c # cs) = (c, cs)"

text \<open>\<open>peek_input\<close>: the three characters and the rest of standard input. Its result
  \<open>d1 != 0\<close> compares the pointer and is always true.\<close>

definition peek_input :: "u8 list \<Rightarrow> (u8 \<times> u8 \<times> u8) \<times> u8 list" where
  "peek_input inp =
    (let (d1, r1) = try_getchar inp in
     if d1 = 0x1b then
       (let (d2, r2) = try_getchar r1 in
        if d2 \<noteq> 0 then (let (d3, r3) = try_getchar r2 in ((d1, d2, d3), r3))
        else ((d1, d2, 0), r2))
     else ((d1, 0, 0), r1))"

text \<open>The interactive block of the loop: the new \<open>Kwl\<close>, what is printed, and whether the
  loop is left by \<open>break\<close>.\<close>

definition interactive_keys :: "u8 \<times> u8 \<times> u8 \<Rightarrow> kwl \<Rightarrow> kwl \<times> out list \<times> bool" where
  "interactive_keys d k =
    (case d of (d1, d2, d3) \<Rightarrow>
       if d1 = 0x1b then
         (if d2 = 0 then (k, [Print ''clear line'' []], True)
          else if d2 = 0x5b then
            (if d3 = 0x41 then (k\<lparr>opt_set_fan := 0xf000\<rparr>, [Print ''clear line'' []], False)
             else if d3 = 0x42 then
               (k\<lparr>opt_set_fan := 0xe000\<rparr>, [Print ''clear line'' []], False)
             else (k, [Print ''clear line'' []], False))
          else (k, [Print ''clear line'' []], False))
       else if d1 = 0x61 then (k\<lparr>opt_set_fan := 0xaa\<rparr>, [Print ''clear line'' []], False)
       else if d1 = 0x62 then
         (k\<lparr>opt_set_bypass := 0xffff, opt_get_bypass := 1\<rparr>, [Print ''clear line'' []], False)
       else (k, [Print ''clear line'' []], False))"

definition signalled :: "event \<Rightarrow> kwl \<Rightarrow> kwl" where
  "signalled e k = (if ev_sigint e then k\<lparr>terminate := True\<rparr> else k)"

text \<open>
  The body of the loop: the state after the round, what it wrote and printed, and whether
  it left the loop by \<open>break\<close>. The cue test \<open>*(uint32_t *)buf == 0x14000013\<close> reads the
  first four bytes of the buffer as a little-endian word.
\<close>

definition main_iter :: "event \<Rightarrow> loop_state \<Rightarrow> loop_state \<times> out list \<times> bool" where
  "main_iter e s =
    (case ev_byte e of
       None \<Rightarrow> (s\<lparr>l_kwl := signalled e (l_kwl s), l_stdin := l_stdin s @ ev_typed e\<rparr>, [], False)
     | Some c \<Rightarrow>
        (let inp = l_stdin s @ ev_typed e;
             (d, rest) = (if interactive (l_kwl s) then peek_input inp else ((0, 0, 0), inp));
             (ka, oa, brk) = (if interactive (l_kwl s) then interactive_keys d (l_kwl s)
                              else (l_kwl s, [], False))
         in if brk then (s\<lparr>l_kwl := ka, l_stdin := rest\<rparr>, oa, True)
            else
              (let (kb, ob) = (if ev_dt e \<ge> 25000000
                               then got_frame (ev_dt e) (l_buf s) (l_idx s) ka
                               else (ka, []));
                   idx = (if ev_dt e \<ge> 25000000 then 0 else l_idx s)
               in if idx \<ge> 128 then
                    (s\<lparr>l_kwl := signalled e kb, l_idx := 0, l_stdin := rest\<rparr>,
                     oa @ ob @ [Print ''Buffer overflow'' []], False)
                  else
                    (let buf = (l_buf s)(idx := c);
                         idx' = idx + 1;
                         (kc, oc) = (if idx' = 4 \<and> le32 buf 0 = 0x14000013
                                     then our_turn (ev_written e) kb
                                     else (kb, []))
                     in (\<lparr>l_kwl = signalled e kc, l_idx = idx', l_buf = buf, l_stdin = rest\<rparr>,
                         oa @ ob @ oc, False)))))"

text \<open>
  The loop, run on the rounds the outside drives. It ends with \<open>break\<close>, or when
  \<open>_terminate\<close> is set at the end of a round; when the list is used up the program is
  blocked in \<open>uart_read\<close>.
\<close>

fun main_loop :: "event list \<Rightarrow> loop_state \<Rightarrow> loop_state \<times> out list" where
  "main_loop [] s = (s, [])"
| "main_loop (e # es) s =
    (case main_iter e s of (s1, o1, brk) \<Rightarrow>
       if brk \<or> terminate (l_kwl s1) then (s1, o1)
       else (case main_loop es s1 of (s2, o2) \<Rightarrow> (s2, o1 @ o2)))"

subsection \<open>\<open>main\<close>\<close>

text \<open>
  What \<open>main\<close> is given: whether \<open>uart_open\<close> and \<open>uart_setup\<close> succeed, the descriptor
  returned by \<open>open\<close> on the lock file (-1 when the file exists), the effect of
  \<open>scan_options\<close> on the fresh \<open>Kwl\<close> object (its return value and the options it has
  set), the memory of the uninitialised array \<open>buf\<close>, and the rounds of the loop.
  The cursor handling before and after is terminal handling and is left out.
\<close>

record world =
  w_uart_open :: bool
  w_lock_fd :: int
  w_uart_setup :: bool
  w_scan_options :: "kwl \<Rightarrow> int \<times> kwl"
  w_buf :: mem
  w_events :: "event list"

text \<open>\<open>main\<close>: the exit status, what was written and printed, and whether the loop was
  entered.\<close>

definition main :: "world \<Rightarrow> int \<times> out list \<times> bool" where
  "main w =
    (if \<not> w_uart_open w then (1, [Print ''Helios KWL control'' []], False)
     else
       (let (retval, k, o1, entered) =
              (if w_lock_fd w > 0 then
                 (let (rv, k, ol, en) =
                        (if w_uart_setup w then
                           (case w_scan_options w kwl_init of (rv, k0) \<Rightarrow>
                              if rv = 0 then
                                (case main_loop (w_events w)
                                        \<lparr>l_kwl = k0, l_idx = 0, l_buf = w_buf w, l_stdin = []\<rparr>
                                 of (s, ol) \<Rightarrow> (rv, l_kwl s, ol, True))
                              else (rv, k0, [], False))
                         else (0, kwl_init, [Print ''Cannot setup /dev/ttyUSB0'' []], False))
                  in (rv, k, ol @ [Unlink ''/var/lock/ttyUSB0''], en))
               else (0, kwl_init, [Print ''Cannot lock /var/lock/ttyUSB0'' []], False))
        in (retval,
            [Print ''Helios KWL control'' []] @ o1 @ snd (print_last_status k)
              @ [Print ''newline'' []],
            entered)))"

subsection \<open>Concrete inputs\<close>

text \<open>A memory that starts with the given bytes and is zero behind them.\<close>

definition mem_of :: "u8 list \<Rightarrow> mem" where
  "mem_of bs = (\<lambda>i. if i < length bs then bs ! i else 0)"

text \<open>A sequencer past its first turn and past the initial temperature request, with a
  bypass toggle pending and the given bypass reading.\<close>

definition k_toggle :: "u16 \<Rightarrow> kwl" where
  "k_toggle b =
     kwl_init\<lparr>initial_temp := False, our_cnt := 1, opt_set_bypass := 0xffff, bypass := b\<rparr>"

text \<open>The same sequencer with a fan request pending and the given fan level and auto
  flag in the snapshot.\<close>

definition k_fan :: "u16 \<Rightarrow> int \<Rightarrow> int \<Rightarrow> kwl" where
  "k_fan req lvl auto =
     kwl_init\<lparr>initial_temp := False, our_cnt := 1, opt_set_fan := req,
              fan_level := lvl, fan_auto := auto\<rparr>"

text \<open>The sequencer with the four voltage reads pending (\<open>--get-voltage\<close>).\<close>

definition k_voltage :: kwl where
  "k_voltage = kwl_init\<lparr>initial_temp := False, our_cnt := 1, opt_get_voltage := 4\<rparr>"

text \<open>The sequencer in loop mode with nothing pending, on the turn before one whose count
  is 2 modulo 8, with the given party and quiet minutes in the snapshot.\<close>

definition k_idle :: "u16 \<Rightarrow> u16 \<Rightarrow> kwl" where
  "k_idle prt qui =
     kwl_init\<lparr>initial_temp := False, our_cnt := 9, opt_do_loop := True, interactive := True,
              party := prt, quiet := qui\<rparr>"

text \<open>A buffer of thirteen bytes: the valid keepalive \<open>10 00 00 11\<close>, then the five
  bytes \<open>13 00 01 14 56\<close> whose checksum is wrong, then the valid keepalive
  \<open>11 00 00 12\<close>.\<close>

definition buf_bad_middle :: "u8 list" where
  "buf_bad_middle = [0x10, 0, 0, 0x11, 0x13, 0, 1, 0x14, 0x56, 0x11, 0, 0, 0x12]"

text \<open>The \<open>Kwl\<close> object as \<open>scan_options\<close> leaves it for \<open>--loop\<close>, and the loop state
  at the start of the loop with a zeroed buffer.\<close>

definition scan_loop :: "kwl \<Rightarrow> int \<times> kwl" where
  "scan_loop k =
     (0, k\<lparr>interactive := True, opt_do_loop := True, opt_get_bypass := 1,
            opt_get_party_enabled := True, opt_get_quiet_enabled := True\<rparr>)"

definition loop_start :: loop_state where
  "loop_start = \<lparr>l_kwl = snd (scan_loop kwl_init), l_idx = 0, l_buf = (\<lambda>i. 0), l_stdin = []\<rparr>"

text \<open>The bytes \<open>13 00 01 14 56\<close> arriving after a gap of 30 ms, half a millisecond
  apart, and the next byte after 30 ms of silence.\<close>

definition spec_cue_events :: "event list" where
  "spec_cue_events =
     [rx 0x13 30000000 5, rx 0x00 500000 5, rx 0x01 500000 5, rx 0x14 500000 5,
      rx 0x56 500000 5, rx 0x10 30000000 5]"

text \<open>The keepalive for address 0x13, \<open>13 00 00 14\<close> (length 0, checksum 0x14), arriving
  the same way, and the next byte after 30 ms of silence.\<close>

definition cue_events :: "event list" where
  "cue_events =
     [rx 0x13 30000000 5, rx 0x00 500000 5, rx 0x00 500000 5, rx 0x14 500000 5,
      rx 0x10 30000000 5]"

text \<open>A start of the program at which another instance holds the lock: \<open>open\<close> on the
  lock file fails with -1, everything else would succeed.\<close>

definition w_locked :: world where
  "w_locked = \<lparr>w_uart_open = True, w_lock_fd = - 1, w_uart_setup = True,
                w_scan_options = scan_loop, w_buf = (\<lambda>i. 0), w_events = cue_events\<rparr>"

section \<open>The frame codec\<close>

lemma holds_nth: "holds m bs \<Longrightarrow> i < length bs \<Longrightarrow> m i = bs ! i"
  unfolding holds_def by (metis nth_map_upt add_0 minus_nat.diff_0)

lemma holds_prefix: "holds m (h @ t) \<Longrightarrow> map m [0..<length h] = h"
proof -
  assume "holds m (h @ t)"
  then have "map m [0..<length (h @ t)] = h @ t" by (simp add: holds_def)
  then have "take (length h) (map m [0..<length (h @ t)]) = take (length h) (h @ t)" by simp
  then show ?thesis by (simp add: take_map)
qed

text \<open>A buffer that starts with a header-and-value part \<open>h\<close> whose length byte is its own
  length minus 3, followed by the checksum of \<open>h\<close>, is sliced to exactly that frame and
  found valid, whatever follows in the buffer.\<close>

lemma new_paket_of_frame:
  assumes hm: "holds m (h @ [chk])" and l4: "4 \<le> length h"
    and x: "4 + unat (h ! 2) = length h + 1"
    and chk: "chk = sum_list h + 1" and n: "length h + 1 \<le> n"
  shows "p_is_valid (new_paket m n)" and "psize (new_paket m n) = length h + 1"
    and "pbuf (new_paket m n) = m" and "map m [0..<length h] = h"
proof -
  show pre: "map m [0..<length h] = h" using hm by (rule holds_prefix)
  have m2: "m 2 = h ! 2"
    using holds_nth [OF hm, of 2] l4 by (simp add: nth_append)
  have lst: "m (length h) = chk"
    using holds_nth [OF hm, of "length h"] by simp
  have sz': "(if n > 4 + unat (m 2) then 4 + unat (m 2) else n) = length h + 1"
    using x n by (simp add: m2)
  have n4: "4 \<le> n" using l4 n by simp
  have np: "new_paket m n = \<lparr>pbuf = m, psize = length h + 1,
              p_is_valid = is_valid_checksum m (length h + 1)\<rparr>"
    using n4 unfolding new_paket_def Let_def sz' by simp
  have "is_valid_checksum m (length h + 1)"
    by (simp add: is_valid_checksum_def pre lst chk)
  then show "p_is_valid (new_paket m n)" by (simp add: np)
  show "psize (new_paket m n) = length h + 1" by (simp add: np)
  show "pbuf (new_paket m n) = m" by (simp add: np)
qed

text \<open>
  Claim C4. For every address \<open>a\<close>, kind \<open>kd\<close>, variable index \<open>v\<close> and value bytes
  \<open>pl\<close> that fit a frame (the total size \<open>sz\<close>, a \<open>uint8_t\<close>, is 5 plus the number of
  value bytes), \<open>send_frame\<close> writes the frame with the length byte \<open>sz - 4\<close> and, as its
  last byte, the checksum 1 + the sum of all bytes before it (in 8-bit arithmetic); the
  placeholders \<open>l\<close> and \<open>c\<close> the caller left in the array do not matter. Decoding any
  buffer of \<open>n \<ge> sz\<close> bytes that starts with the written frame gives a valid packet of
  size \<open>sz\<close> with the same address, kind, variable index and value bytes.
\<close>

theorem encode_decode_roundtrip:
  assumes len: "unat sz = 5 + length pl"
  shows "writes_of (send_frame w ([a, kd, l, v] @ pl @ [c]) sz)
           = [[a, kd, sz - 4, v] @ pl @ [a + kd + (sz - 4) + v + sum_list pl + 1]]
       \<and> (holds m ([a, kd, sz - 4, v] @ pl @ [a + kd + (sz - 4) + v + sum_list pl + 1])
            \<and> unat sz \<le> n
          \<longrightarrow> p_is_valid (new_paket m n) \<and> psize (new_paket m n) = unat sz
              \<and> frame_fields (new_paket m n) = (a, kd, v, pl))"
proof (intro conjI impI)
  let ?x = "sz - 4"
  let ?h = "[a, kd, ?x, v] @ pl"
  have sz4: "\<not> sz < 4"
    using len by (simp add: word_less_nat_alt)
  have n1: "unat sz - 1 = length ?h" and n: "unat sz = length (?h @ [c])"
    using len by simp_all
  have b1: "([a, kd, l, v] @ pl @ [c])[2 := ?x] = ?h @ [c]"
    by (simp add: numeral_2_eq_2)
  have t1: "take (unat sz - 1) (?h @ [c]) = ?h"
    unfolding n1 by simp
  have b2: "(?h @ [c])[unat sz - 1 := y] = ?h @ [y]" for y
    unfolding n1 by (rule list_update_length)
  have t2: "take (unat sz) (?h @ [y]) = ?h @ [y]" for y
    using len by simp
  have "writes_of (send_frame w ([a, kd, l, v] @ pl @ [c]) sz)
          = [?h @ [sum_list ?h + 1]]"
    using sz4 unfolding send_frame_def Let_def b1 t1 b2 t2 by simp
  then show "writes_of (send_frame w ([a, kd, l, v] @ pl @ [c]) sz)
           = [[a, kd, sz - 4, v] @ pl @ [a + kd + (sz - 4) + v + sum_list pl + 1]]"
    by (simp add: ac_simps)
next
  let ?chk = "a + kd + (sz - 4) + v + sum_list pl + 1"
  let ?h = "[a, kd, sz - 4, v] @ pl"
  assume h: "holds m ([a, kd, sz - 4, v] @ pl @ [?chk]) \<and> unat sz \<le> n"
  then have hm: "holds m (?h @ [?chk])" by simp
  have l4: "4 \<le> length ?h" by simp
  have "4 \<le> sz" using len by (simp add: word_le_nat_alt)
  then have u4: "unat (sz - 4) = unat sz - 4"
    by (simp add: unat_sub)
  have x: "4 + unat (?h ! 2) = length ?h + 1"
    using len by (simp add: u4 numeral_2_eq_2)
  have chk: "?chk = sum_list ?h + 1" by (simp add: ac_simps)
  have nn: "length ?h + 1 \<le> n" using h len by simp
  note np = new_paket_of_frame [OF hm l4 x chk nn]
  have lh: "length ?h + 1 = unat sz" using len by simp
  show "p_is_valid (new_paket m n)" by (rule np(1))
  show ps: "psize (new_paket m n) = unat sz" using np(2) lh by simp
  have L: "length ?h = 4 + length pl" by simp
  have "map m [0..<4 + length pl] = ?h"
    using np(4) unfolding L .
  then have "drop 4 (map m [0..<4 + length pl]) = drop 4 ?h"
    by (rule arg_cong)
  moreover have "drop 4 (map m [0..<4 + length pl]) = map m [4..<4 + length pl]"
    by (simp only: drop_map drop_upt add_0)
  moreover have "drop 4 ?h = pl" by simp
  moreover have "unat sz - 1 = 4 + length pl" using len by simp
  ultimately have pl: "map m [4..<unat sz - 1] = pl"
    by (simp only:)
  have "m 0 = ?h ! 0" "m 1 = ?h ! 1" "m 3 = ?h ! 3"
    using holds_nth [OF hm, of 0] holds_nth [OF hm, of 1] holds_nth [OF hm, of 3]
    by (simp_all add: nth_append)
  then have "m 0 = a" "m 1 = kd" "m 3 = v" by (simp_all add: numeral_3_eq_3)
  with pl show "frame_fields (new_paket m n) = (a, kd, v, pl)"
    by (simp add: frame_fields_def ps np(3))
qed

text \<open>At a concrete input: the write of bypass temperature 280, decoded from a buffer
  of nine bytes in which two more bytes follow the frame.\<close>

theorem encode_decode_roundtrip_witness:
  "writes_of (send_set_var_16bit 7 Var_1e_bypass1_temp 280)
     = [[0x13, 1, 3, 0x1e, 0x18, 0x01, 0x4f]]
   \<and> holds (mem_of [0x13, 1, 3, 0x1e, 0x18, 0x01, 0x4f, 0x10, 0x00])
        [0x13, 1, 3, 0x1e, 0x18, 0x01, 0x4f]
   \<and> p_is_valid (new_paket (mem_of [0x13, 1, 3, 0x1e, 0x18, 0x01, 0x4f, 0x10, 0x00]) 9)
   \<and> psize (new_paket (mem_of [0x13, 1, 3, 0x1e, 0x18, 0x01, 0x4f, 0x10, 0x00]) 9) = 7
   \<and> frame_fields (new_paket (mem_of [0x13, 1, 3, 0x1e, 0x18, 0x01, 0x4f, 0x10, 0x00]) 9)
        = (0x13, 1, 0x1e, [0x18, 0x01])"
proof -
  have h: "holds (mem_of [0x13, 1, 3, 0x1e, 0x18, 0x01, 0x4f, 0x10, 0x00])
             [0x13, 1, 3, 0x1e, 0x18, 0x01, 0x4f]"
    by (simp add: holds_def mem_of_def upt_rec [of _ "numeral _"] upt_rec [of _ "Suc _"])
  have l: "unat (7 :: u8) = 5 + length [0x18, 0x01 :: u8]" by simp
  show ?thesis
    using h encode_decode_roundtrip [OF l, where a = "0x13" and kd = 1 and v = "0x1e"
        and l = 3 and c = 0 and w = 7 and n = 9
        and m = "mem_of [0x13, 1, 3, 0x1e, 0x18, 0x01, 0x4f, 0x10, 0x00]"]
    by (simp add: send_set_var_16bit_def)
qed

section \<open>The command sequencer\<close>

lemma send_get_var_writes: "length (writes_of (send_get_var w i)) \<le> 1"
  by (simp add: send_get_var_def send_frame_def Let_def)

lemma send_set_var_8bit_writes: "length (writes_of (send_set_var_8bit w i v)) \<le> 1"
  by (simp add: send_set_var_8bit_def send_frame_def Let_def)

lemma send_set_var_16bit_writes: "length (writes_of (send_set_var_16bit w i v)) \<le> 1"
  by (simp add: send_set_var_16bit_def send_frame_def Let_def)

lemma send_set_var_32bit_writes: "length (writes_of (send_set_var_32bit w i v)) \<le> 1"
  by (simp add: send_set_var_32bit_def send_frame_def Let_def)

lemma writes_snd_if:
  "(length (writes_of (snd (if c then x else y))) \<le> 1)
     = (if c then length (writes_of (snd x)) \<le> 1 else length (writes_of (snd y)) \<le> 1)"
  by simp

lemma writes_if:
  "(length (writes_of (if c then x else y)) \<le> 1)
     = (if c then length (writes_of x) \<le> 1 else length (writes_of y) \<le> 1)"
  by simp

text \<open>
  Claim C7. For every state of the sequencer and whatever \<open>write\<close> returns, one call of
  \<open>our_turn\<close> calls \<open>write\<close> on the serial port at most once: it sends at most one frame.
\<close>

theorem our_turn_at_most_one_frame:
  "length (writes_of (snd (our_turn w k))) \<le> 1"
  unfolding our_turn_def
  by (simp only: Let_def writes_snd_if writes_if snd_conv writes_of.simps list.size
        send_get_var_writes send_set_var_8bit_writes send_set_var_16bit_writes
        send_set_var_32bit_writes if_True if_False simp_thms if_cancel le0)

theorem our_turn_at_most_one_frame_witness:
  "length (writes_of (snd (our_turn 7 (k_toggle 195)))) \<le> 1"
  by (rule our_turn_at_most_one_frame)

text \<open>
  Claim C5. On a turn on which the bypass toggle is the first pending intent (not the
  first turn ever, the initial temperature request done, no time-of-day write pending,
  \<open>opt_set_bypass\<close> = 0xffff): with the bypass reading unknown (0xffff) nothing is
  emitted and the toggle stays pending for the next turn; with a reading below 200 the
  bypass temperature 280 is written, with a reading of 200 or more (and known) 180 is
  written, and the toggle is cleared. The last two conjuncts give the bytes on the wire.
\<close>

theorem bypass_toggle:
  assumes "\<not> our_cnt k + 1 < 2" "\<not> initial_temp k" "opt_set_time k = 0"
    and "opt_set_bypass k = 0xffff"
  shows "(bypass k = 0xffff \<longrightarrow> our_turn w k = (k\<lparr>our_cnt := our_cnt k + 1\<rparr>, []))
    \<and> (bypass k < 200 \<longrightarrow>
         our_turn w k = (k\<lparr>our_cnt := our_cnt k + 1, opt_set_bypass := 0\<rparr>,
                         send_set_var_16bit w Var_1e_bypass1_temp 280))
    \<and> (200 \<le> bypass k \<and> bypass k \<noteq> 0xffff \<longrightarrow>
         our_turn w k = (k\<lparr>our_cnt := our_cnt k + 1, opt_set_bypass := 0\<rparr>,
                         send_set_var_16bit w Var_1e_bypass1_temp 180))
    \<and> send_set_var_16bit 7 Var_1e_bypass1_temp 280
         = [Sleep 5, Write [0x13, 1, 3, 0x1e, 0x18, 0x01, 0x4f]]
    \<and> send_set_var_16bit 7 Var_1e_bypass1_temp 180
         = [Sleep 5, Write [0x13, 1, 3, 0x1e, 0xb4, 0x00, 0xea]]"
proof (intro conjI impI)
  assume "bypass k = 0xffff"
  with assms show "our_turn w k = (k\<lparr>our_cnt := our_cnt k + 1\<rparr>, [])"
    unfolding our_turn_def Let_def by simp
next
  assume lt: "bypass k < 200"
  then have "bypass k \<noteq> 0xffff" by auto
  with lt assms
  show "our_turn w k = (k\<lparr>our_cnt := our_cnt k + 1, opt_set_bypass := 0\<rparr>,
                        send_set_var_16bit w Var_1e_bypass1_temp 280)"
    unfolding our_turn_def Let_def by simp
next
  assume "200 \<le> bypass k \<and> bypass k \<noteq> 0xffff"
  then have "\<not> bypass k < 200" "bypass k \<noteq> 0xffff" by auto
  with assms
  show "our_turn w k = (k\<lparr>our_cnt := our_cnt k + 1, opt_set_bypass := 0\<rparr>,
                        send_set_var_16bit w Var_1e_bypass1_temp 180)"
    unfolding our_turn_def Let_def by simp
next
  show "send_set_var_16bit 7 Var_1e_bypass1_temp 280
          = [Sleep 5, Write [0x13, 1, 3, 0x1e, 0x18, 0x01, 0x4f]]"
    by (simp add: send_set_var_16bit_def send_frame_def)
next
  show "send_set_var_16bit 7 Var_1e_bypass1_temp 180
          = [Sleep 5, Write [0x13, 1, 3, 0x1e, 0xb4, 0x00, 0xea]]"
    by (simp add: send_set_var_16bit_def send_frame_def)
qed

theorem bypass_toggle_witness:
  "our_turn 7 (k_toggle 0xffff) = ((k_toggle 0xffff)\<lparr>our_cnt := 2\<rparr>, [])
   \<and> our_turn 7 (k_toggle 195)
       = ((k_toggle 195)\<lparr>our_cnt := 2, opt_set_bypass := 0\<rparr>,
          [Sleep 5, Write [0x13, 1, 3, 0x1e, 0x18, 0x01, 0x4f]])
   \<and> our_turn 7 (k_toggle 205)
       = ((k_toggle 205)\<lparr>our_cnt := 2, opt_set_bypass := 0\<rparr>,
          [Sleep 5, Write [0x13, 1, 3, 0x1e, 0xb4, 0x00, 0xea]])"
proof -
  have h: "\<not> our_cnt (k_toggle b) + 1 < 2" "\<not> initial_temp (k_toggle b)"
    "opt_set_time (k_toggle b) = 0" "opt_set_bypass (k_toggle b) = 0xffff" for b
    by (simp_all add: k_toggle_def kwl_init_def)
  have c: "our_cnt (k_toggle b) = 1" "bypass (k_toggle b) = b" for b
    by (simp_all add: k_toggle_def kwl_init_def)
  show ?thesis
    using bypass_toggle [where k = "k_toggle 0xffff" and w = 7, OF h]
      bypass_toggle [where k = "k_toggle 195" and w = 7, OF h]
      bypass_toggle [where k = "k_toggle 205" and w = 7, OF h]
    by (simp add: c)
qed

text \<open>
  Claim C6. On a turn on which a fan "down" request (\<open>opt_set_fan\<close> = 0xe000) is the
  first pending intent and the snapshot holds fan level 2: with the auto flag 0 the
  manual level-1 write (value 0xbb01, bytes 01 bb) is emitted on that turn and the request
  is cleared; with the auto flag 1 the "disable auto" write (value 0x00aa, bytes aa 00) is
  emitted on that turn, level 1 is remembered in \<open>opt_set_fan\<close>, and the level-1 write is
  emitted on the following turn, whatever fan level \<open>fl\<close> and auto flag \<open>fa\<close> the
  snapshot holds by then. In both cases the cached fan level and auto flag are -1
  (unknown) after the turn of the first write.
\<close>

theorem fan_down_step:
  assumes "\<not> our_cnt k + 1 < 2" "\<not> our_cnt k + 1 + 1 < 2"
    and "\<not> initial_temp k" "opt_set_time k = 0" "opt_set_bypass k = 0"
    and "opt_set_fan k = 0xe000" "fan_level k = 2"
  shows "(fan_auto k = 0 \<longrightarrow>
            our_turn w k
              = (k\<lparr>our_cnt := our_cnt k + 1, opt_set_fan := 0,
                    fan_level := - 1, fan_auto := - 1\<rparr>,
                 send_set_var_16bit w Var_35_fan_level 0xbb01))
       \<and> (fan_auto k = 1 \<longrightarrow>
            our_turn w k
              = (k\<lparr>our_cnt := our_cnt k + 1, opt_set_fan := 1,
                    fan_level := - 1, fan_auto := - 1\<rparr>,
                 send_set_var_16bit w Var_35_fan_level 0x00aa)
            \<and> our_turn w' (k\<lparr>our_cnt := our_cnt k + 1, opt_set_fan := 1,
                               fan_level := fl, fan_auto := fa\<rparr>)
              = (k\<lparr>our_cnt := our_cnt k + 1 + 1, opt_set_fan := 0,
                    fan_level := fl, fan_auto := fa\<rparr>,
                 send_set_var_16bit w' Var_35_fan_level 0xbb01))
       \<and> send_set_var_16bit 7 Var_35_fan_level 0xbb01
            = [Sleep 5, Write [0x13, 1, 3, 0x35, 0x01, 0xbb, 0x09]]
       \<and> send_set_var_16bit 7 Var_35_fan_level 0x00aa
            = [Sleep 5, Write [0x13, 1, 3, 0x35, 0xaa, 0x00, 0xf7]]"
proof (intro conjI impI)
  assume "fan_auto k = 0"
  with assms
  show "our_turn w k
          = (k\<lparr>our_cnt := our_cnt k + 1, opt_set_fan := 0, fan_level := - 1, fan_auto := - 1\<rparr>,
             send_set_var_16bit w Var_35_fan_level 0xbb01)"
    unfolding our_turn_def Let_def by simp
next
  assume "fan_auto k = 1"
  with assms
  show "our_turn w k
          = (k\<lparr>our_cnt := our_cnt k + 1, opt_set_fan := 1, fan_level := - 1, fan_auto := - 1\<rparr>,
             send_set_var_16bit w Var_35_fan_level 0x00aa)"
    unfolding our_turn_def Let_def by simp
next
  define k1 where
    "k1 = k\<lparr>our_cnt := our_cnt k + 1, opt_set_fan := 1, fan_level := fl, fan_auto := fa\<rparr>"
  have k1: "\<not> our_cnt k1 + 1 < 2" "\<not> initial_temp k1" "opt_set_time k1 = 0"
    "opt_set_bypass k1 = 0" "opt_set_fan k1 = 1"
    using assms by (simp_all add: k1_def)
  have "our_turn w' k1 = (k1\<lparr>our_cnt := our_cnt k1 + 1, opt_set_fan := 0\<rparr>,
          send_set_var_16bit w' Var_35_fan_level 0xbb01)"
    using k1 unfolding our_turn_def Let_def by simp
  then show "our_turn w' (k\<lparr>our_cnt := our_cnt k + 1, opt_set_fan := 1,
                             fan_level := fl, fan_auto := fa\<rparr>)
               = (k\<lparr>our_cnt := our_cnt k + 1 + 1, opt_set_fan := 0,
                     fan_level := fl, fan_auto := fa\<rparr>,
                  send_set_var_16bit w' Var_35_fan_level 0xbb01)"
    by (simp add: k1_def)
next
  show "send_set_var_16bit 7 Var_35_fan_level 0xbb01
          = [Sleep 5, Write [0x13, 1, 3, 0x35, 0x01, 0xbb, 0x09]]"
    by (simp add: send_set_var_16bit_def send_frame_def)
next
  show "send_set_var_16bit 7 Var_35_fan_level 0x00aa
          = [Sleep 5, Write [0x13, 1, 3, 0x35, 0xaa, 0x00, 0xf7]]"
    by (simp add: send_set_var_16bit_def send_frame_def)
qed

theorem fan_down_step_witness:
  "our_turn 7 (k_fan 0xe000 2 0)
     = ((k_fan 0xe000 2 0)\<lparr>our_cnt := 2, opt_set_fan := 0, fan_level := - 1, fan_auto := - 1\<rparr>,
        [Sleep 5, Write [0x13, 1, 3, 0x35, 0x01, 0xbb, 0x09]])
   \<and> our_turn 7 (k_fan 0xe000 2 1)
     = ((k_fan 0xe000 2 1)\<lparr>our_cnt := 2, opt_set_fan := 1, fan_level := - 1, fan_auto := - 1\<rparr>,
        [Sleep 5, Write [0x13, 1, 3, 0x35, 0xaa, 0x00, 0xf7]])
   \<and> our_turn 7 ((k_fan 0xe000 2 1)\<lparr>our_cnt := 2, opt_set_fan := 1, fan_level := 1, fan_auto := 0\<rparr>)
     = ((k_fan 0xe000 2 1)\<lparr>our_cnt := 3, opt_set_fan := 0, fan_level := 1, fan_auto := 0\<rparr>,
        [Sleep 5, Write [0x13, 1, 3, 0x35, 0x01, 0xbb, 0x09]])"
proof -
  have h: "\<not> our_cnt (k_fan 0xe000 2 a) + 1 < 2" "\<not> our_cnt (k_fan 0xe000 2 a) + 1 + 1 < 2"
    "\<not> initial_temp (k_fan 0xe000 2 a)" "opt_set_time (k_fan 0xe000 2 a) = 0"
    "opt_set_bypass (k_fan 0xe000 2 a) = 0" "opt_set_fan (k_fan 0xe000 2 a) = 0xe000"
    "fan_level (k_fan 0xe000 2 a) = 2" for a
    by (simp_all add: k_fan_def kwl_init_def)
  have c: "our_cnt (k_fan 0xe000 2 a) = 1" "fan_auto (k_fan 0xe000 2 a) = a" for a
    by (simp_all add: k_fan_def kwl_init_def)
  show ?thesis
    using fan_down_step [where k = "k_fan 0xe000 2 0" and w = 7 and w' = 7
                           and fl = 1 and fa = 0, OF h]
      fan_down_step [where k = "k_fan 0xe000 2 1" and w = 7 and w' = 7
                       and fl = 1 and fa = 0, OF h]
    by (simp add: c)
qed

text \<open>
  Claim C8. On a turn on which a fan step is the first pending intent and the fan level is
  known (not -1): a "down" request (0xe000) with the level outside [2,4], or an "up"
  request (0xf000) with the level outside [1,3], sends no frame and prints nothing (the
  list of effects is empty) and clears the request, so that it is not retried.
\<close>

theorem fan_step_out_of_range:
  assumes "\<not> our_cnt k + 1 < 2" "\<not> initial_temp k" "opt_set_time k = 0"
    and "opt_set_bypass k = 0" "fan_level k \<noteq> - 1"
    and "(opt_set_fan k = 0xe000 \<and> (fan_level k < 2 \<or> 4 < fan_level k))
       \<or> (opt_set_fan k = 0xf000 \<and> (fan_level k < 1 \<or> 3 < fan_level k))"
  shows "our_turn w k = (k\<lparr>our_cnt := our_cnt k + 1, opt_set_fan := 0\<rparr>, [])"
proof -
  have "opt_set_fan k \<noteq> 0" "opt_set_fan k = 0xe000 \<or> opt_set_fan k = 0xf000"
    using assms(6) by auto
  moreover have
    "((if opt_set_fan k = 0xf000 then 1 else - 1 :: int) = - 1
        \<and> (fan_level k < 2 \<or> fan_level k > 4))
     \<or> ((if opt_set_fan k = 0xf000 then 1 else - 1 :: int) = 1
        \<and> (fan_level k < 1 \<or> fan_level k > 3))"
    using assms(6) by auto
  ultimately show ?thesis
    using assms(1-5) unfolding our_turn_def Let_def by simp
qed

theorem fan_step_out_of_range_witness:
  "our_turn 7 (k_fan 0xe000 1 0) = ((k_fan 0xe000 1 0)\<lparr>our_cnt := 2, opt_set_fan := 0\<rparr>, [])
   \<and> our_turn 7 (k_fan 0xf000 4 1) = ((k_fan 0xf000 4 1)\<lparr>our_cnt := 2, opt_set_fan := 0\<rparr>, [])"
proof -
  have h: "\<not> our_cnt (k_fan r l a) + 1 < 2" "\<not> initial_temp (k_fan r l a)"
    "opt_set_time (k_fan r l a) = 0" "opt_set_bypass (k_fan r l a) = 0" for r l a
    by (simp_all add: k_fan_def kwl_init_def)
  have c: "our_cnt (k_fan r l a) = 1" "fan_level (k_fan r l a) = l"
    "opt_set_fan (k_fan r l a) = r" for r l a
    by (simp_all add: k_fan_def kwl_init_def)
  show ?thesis
    using fan_step_out_of_range [where k = "k_fan 0xe000 1 0" and w = 7, OF h]
      fan_step_out_of_range [where k = "k_fan 0xf000 4 1" and w = 7, OF h]
    by (simp add: c)
qed

text \<open>The turn counter: \<open>our_cnt < 2\<close> after the increment holds only on the first turn
  and when the 32-bit counter wraps.\<close>

lemma word_less_2:
  fixes x :: u32
  shows "x < 2 \<longleftrightarrow> x = 0 \<or> x = 1"
proof
  assume "x < 2"
  then have "unat x < 2" by (simp add: word_less_nat_alt)
  then have "unat x = 0 \<or> unat x = 1" by arith
  then show "x = 0 \<or> x = 1"
    by (metis unat_0_iff unat_1 word_unat_eq_iff)
next
  assume "x = 0 \<or> x = 1"
  then show "x < 2" by auto
qed

lemma cnt_no_wrap:
  fixes c :: u32
  assumes lo: "1 \<le> c" and hi: "c \<le> 0xfffffffb"
  shows "\<not> c + 1 < 2" "\<not> c + 1 + 1 < 2" "\<not> c + 1 + 1 + 1 < 2" "\<not> c + 1 + 1 + 1 + 1 < 2"
proof -
  have s: "c + d < 2 \<longleftrightarrow> c = - d \<or> c = 1 - d" for d :: u32
    by (simp only: word_less_2 eq_neg_iff_add_eq_0 eq_diff_eq)
  have s': "d + c < 2 \<longleftrightarrow> c = - d \<or> c = 1 - d" for d :: u32
    unfolding add.commute [of d c] by (rule s)
  have neg: "(- 1 :: u32) = 0xffffffff" "(- 2 :: u32) = 0xfffffffe"
    "(- 3 :: u32) = 0xfffffffd" "(- 4 :: u32) = 0xfffffffc"
    by simp_all
  have ne: "c \<noteq> 0" "c \<noteq> - 1" "c \<noteq> - 2" "c \<noteq> - 3" "c \<noteq> - 4"
    using lo hi unfolding neg by auto
  show "\<not> c + 1 < 2" using ne s [of 1] s' [of 1] by simp
  show "\<not> c + 1 + 1 < 2" using ne s [of 2] s' [of 2] by simp
  show "\<not> c + 1 + 1 + 1 < 2" using ne s [of 3] s' [of 3] by simp
  show "\<not> c + 1 + 1 + 1 + 1 < 2" using ne s [of 4] s' [of 4] by simp
qed

text \<open>One turn of the voltage branch.\<close>

lemma our_turn_get_voltage:
  assumes "\<not> our_cnt k + 1 < 2" "no_write_pending k" "opt_get_bypass k = 0"
    and "\<not> opt_get_hours_on k" "opt_get_voltage k \<noteq> 0" "opt_get_voltage k < 5"
  shows "our_turn w k
           = (k\<lparr>our_cnt := our_cnt k + 1, opt_get_voltage := opt_get_voltage k - 1\<rparr>,
              send_get_var w (ucast (ucast Var_19_fan_4_voltage + 1 - opt_get_voltage k)))"
  using assms unfolding our_turn_def Let_def no_write_pending_def by simp

text \<open>
  Claim C2, as amended. When the four voltage reads are the first pending intent
  (\<open>opt_get_voltage\<close> = 4, nothing in front of it, and the turn counter neither at its
  first turn nor about to wrap), four successive turns request the per-level fan voltages
  in ascending level order: fan 1 (0x16) first, then fan 2, fan 3, and fan 4 (0x19) last,
  after which the counter \<open>opt_get_voltage\<close> is 0.
\<close>

theorem voltage_reads_ascending:
  assumes cnt: "1 \<le> our_cnt k" "our_cnt k \<le> 0xfffffffb"
    and nw: "no_write_pending k" and nb: "opt_get_bypass k = 0"
    and nh: "\<not> opt_get_hours_on k" and v: "opt_get_voltage k = 4"
  shows "snd (our_turn w1 k) = send_get_var w1 Var_16_fan_1_voltage
       \<and> snd (our_turn w2 (fst (our_turn w1 k))) = send_get_var w2 Var_17_fan_2_voltage
       \<and> snd (our_turn w3 (fst (our_turn w2 (fst (our_turn w1 k)))))
           = send_get_var w3 Var_18_fan_3_voltage
       \<and> snd (our_turn w4 (fst (our_turn w3 (fst (our_turn w2 (fst (our_turn w1 k)))))))
           = send_get_var w4 Var_19_fan_4_voltage
       \<and> opt_get_voltage
            (fst (our_turn w4 (fst (our_turn w3 (fst (our_turn w2 (fst (our_turn w1 k)))))))) = 0"
proof -
  note c = cnt_no_wrap [OF cnt]
  define k1 where "k1 = k\<lparr>our_cnt := our_cnt k + 1, opt_get_voltage := 3\<rparr>"
  define k2 where "k2 = k\<lparr>our_cnt := our_cnt k + 1 + 1, opt_get_voltage := 2\<rparr>"
  define k3 where "k3 = k\<lparr>our_cnt := our_cnt k + 1 + 1 + 1, opt_get_voltage := 1\<rparr>"
  define k4 where "k4 = k\<lparr>our_cnt := our_cnt k + 1 + 1 + 1 + 1, opt_get_voltage := 0\<rparr>"
  have t1: "our_turn w1 k = (k1, send_get_var w1 Var_16_fan_1_voltage)"
    using our_turn_get_voltage [of k w1] c(1) nw nb nh v by (simp add: k1_def)
  have p1: "\<not> our_cnt k1 + 1 < 2" "no_write_pending k1" "opt_get_bypass k1 = 0"
    "\<not> opt_get_hours_on k1" "opt_get_voltage k1 = 3"
    using c(2) nw nb nh by (simp_all add: k1_def no_write_pending_def)
  have t2: "our_turn w2 k1 = (k2, send_get_var w2 Var_17_fan_2_voltage)"
    using our_turn_get_voltage [of k1 w2] p1 by (simp add: k1_def k2_def)
  have p2: "\<not> our_cnt k2 + 1 < 2" "no_write_pending k2" "opt_get_bypass k2 = 0"
    "\<not> opt_get_hours_on k2" "opt_get_voltage k2 = 2"
    using c(3) nw nb nh by (simp_all add: k2_def no_write_pending_def)
  have t3: "our_turn w3 k2 = (k3, send_get_var w3 Var_18_fan_3_voltage)"
    using our_turn_get_voltage [of k2 w3] p2 by (simp add: k2_def k3_def)
  have p3: "\<not> our_cnt k3 + 1 < 2" "no_write_pending k3" "opt_get_bypass k3 = 0"
    "\<not> opt_get_hours_on k3" "opt_get_voltage k3 = 1"
    using c(4) nw nb nh by (simp_all add: k3_def no_write_pending_def)
  have t4: "our_turn w4 k3 = (k4, send_get_var w4 Var_19_fan_4_voltage)"
    using our_turn_get_voltage [of k3 w4] p3 by (simp add: k3_def k4_def)
  have v4: "opt_get_voltage k4 = 0" by (simp add: k4_def)
  show ?thesis
    unfolding t1 fst_conv snd_conv t2 t3 t4 using v4 by simp
qed

theorem voltage_reads_ascending_witness:
  "1 \<le> our_cnt k_voltage \<and> our_cnt k_voltage \<le> 0xfffffffb \<and> no_write_pending k_voltage
   \<and> opt_get_bypass k_voltage = 0 \<and> \<not> opt_get_hours_on k_voltage
   \<and> opt_get_voltage k_voltage = 4
   \<and> snd (our_turn 5 k_voltage) = send_get_var 5 Var_16_fan_1_voltage
   \<and> snd (our_turn 5 (fst (our_turn 5 k_voltage))) = send_get_var 5 Var_17_fan_2_voltage
   \<and> snd (our_turn 5 (fst (our_turn 5 (fst (our_turn 5 k_voltage)))))
       = send_get_var 5 Var_18_fan_3_voltage
   \<and> snd (our_turn 5 (fst (our_turn 5 (fst (our_turn 5 (fst (our_turn 5 k_voltage)))))))
       = send_get_var 5 Var_19_fan_4_voltage
   \<and> send_get_var 5 Var_16_fan_1_voltage = [Sleep 5, Write [0x13, 0, 1, 0x16, 0x2b]]
   \<and> send_get_var 5 Var_19_fan_4_voltage = [Sleep 5, Write [0x13, 0, 1, 0x19, 0x2e]]"
proof -
  have h: "1 \<le> our_cnt k_voltage" "our_cnt k_voltage \<le> 0xfffffffb" "no_write_pending k_voltage"
    "opt_get_bypass k_voltage = 0" "\<not> opt_get_hours_on k_voltage" "opt_get_voltage k_voltage = 4"
    by (simp_all add: k_voltage_def kwl_init_def no_write_pending_def)
  have b: "send_get_var 5 Var_16_fan_1_voltage = [Sleep 5, Write [0x13, 0, 1, 0x16, 0x2b]]"
    "send_get_var 5 Var_19_fan_4_voltage = [Sleep 5, Write [0x13, 0, 1, 0x19, 0x2e]]"
    by (simp_all add: send_get_var_def send_frame_def)
  from h b voltage_reads_ascending [OF h, of 5 5 5 5] show ?thesis
    by blast
qed

text \<open>
  Claim C2 as stated (fan 4 voltage first) fails: the first of the four turns requests
  variable 0x16, the fan 1 voltage, and that is not the request for the fan 4 voltage.
\<close>

theorem voltage_first_read_counterexample:
  "writes_of (snd (our_turn 5 k_voltage)) = [[0x13, 0, 1, Var_16_fan_1_voltage, 0x2b]]
   \<and> writes_of (snd (our_turn 5 k_voltage)) \<noteq> writes_of (send_get_var 5 Var_19_fan_4_voltage)"
  by (simp add: our_turn_def k_voltage_def kwl_init_def Let_def send_get_var_def send_frame_def)

lemma send_get_var_bytes: "writes_of (send_get_var w i) = [[0x13, 0, 1, i, i + 0x15]]"
  by (simp add: send_get_var_def send_frame_def)

text \<open>A count that is 2 modulo 8 is at least 2 and is 2, not 3, modulo 4.\<close>

lemma cnt_mod8:
  fixes c :: u32
  assumes "c mod 8 = 2"
  shows "\<not> c < 2" and "c mod 4 \<noteq> 3"
proof -
  have "unat (c mod 8) = 2" using assms by simp
  then have m8: "unat c mod 8 = 2" by (simp add: unat_mod)
  then have "2 \<le> unat c" by presburger
  then show "\<not> c < 2" by (simp add: word_less_nat_alt)
  from m8 have "unat c mod 4 = 2" by presburger
  then have "unat (c mod 4) = 2" by (simp add: unat_mod)
  then show "c mod 4 \<noteq> 3" by auto
qed

text \<open>
  Claim C10. On a turn whose count (after the increment) is 2 modulo 8, with no intent
  pending and loop mode on, \<open>our_turn\<close> leaves the state unchanged apart from the count
  and sends the party remaining-time request when party minutes are not 0, otherwise the
  quiet remaining-time request when quiet minutes are not 0, otherwise nothing. So with
  both active only the party request (13 00 01 10 25) is sent, and the quiet request
  (13 00 01 54 69) is sent exactly when party is inactive and quiet is active.
\<close>

theorem low_frequency_party_before_quiet:
  assumes cnt: "(our_cnt k + 1) mod 8 = 2" and idle: "no_pending k" and lp: "opt_do_loop k"
  shows "our_turn w k
           = (k\<lparr>our_cnt := our_cnt k + 1\<rparr>,
              if party k \<noteq> 0 then send_get_var w Var_10_party_curr_time
              else if quiet k \<noteq> 0 then send_get_var w Var_54_quiet_curr_time
              else [])
       \<and> (party k \<noteq> 0 \<and> quiet k \<noteq> 0 \<longrightarrow>
            writes_of (snd (our_turn w k)) = [[0x13, 0, 1, 0x10, 0x25]])
       \<and> (party k = 0 \<and> quiet k \<noteq> 0 \<longrightarrow>
            writes_of (snd (our_turn w k)) = [[0x13, 0, 1, 0x54, 0x69]])
       \<and> (writes_of (snd (our_turn w k)) = [[0x13, 0, 1, 0x54, 0x69]] \<longrightarrow>
            party k = 0 \<and> quiet k \<noteq> 0)"
proof -
  note c = cnt_mod8 [OF cnt]
  have eq: "our_turn w k
           = (k\<lparr>our_cnt := our_cnt k + 1\<rparr>,
              if party k \<noteq> 0 then send_get_var w Var_10_party_curr_time
              else if quiet k \<noteq> 0 then send_get_var w Var_54_quiet_curr_time
              else [])"
    using c cnt idle lp unfolding our_turn_def Let_def no_pending_def no_write_pending_def
    by simp
  show ?thesis
    unfolding eq by (simp add: send_get_var_bytes)
qed

theorem low_frequency_party_before_quiet_witness:
  "writes_of (snd (our_turn 5 (k_idle 30 45))) = [[0x13, 0, 1, 0x10, 0x25]]
   \<and> writes_of (snd (our_turn 5 (k_idle 0 45))) = [[0x13, 0, 1, 0x54, 0x69]]
   \<and> writes_of (snd (our_turn 5 (k_idle 0 0))) = []"
proof -
  have h: "(our_cnt (k_idle p q) + 1) mod 8 = 2" "no_pending (k_idle p q)"
    "opt_do_loop (k_idle p q)" for p q
    by (simp_all add: k_idle_def kwl_init_def no_pending_def no_write_pending_def)
  have c: "party (k_idle p q) = p" "quiet (k_idle p q) = q" for p q
    by (simp_all add: k_idle_def kwl_init_def)
  show ?thesis
    using low_frequency_party_before_quiet [where k = "k_idle 30 45" and w = 5, OF h]
      low_frequency_party_before_quiet [where k = "k_idle 0 45" and w = 5, OF h]
      low_frequency_party_before_quiet [where k = "k_idle 0 0" and w = 5, OF h]
    by (simp add: c send_get_var_bytes)
qed

section \<open>Decoding a buffer\<close>

text \<open>The slice and its validity depend only on the bytes of the slice.\<close>

lemma is_valid_checksum_cong:
  assumes "\<forall>i<n. b' i = b i" and "0 < n"
  shows "is_valid_checksum b' n = is_valid_checksum b n"
proof -
  have "map b' [0..<n - 1] = map b [0..<n - 1]"
    using assms by simp
  moreover have "b' (n - 1) = b (n - 1)"
    using assms by simp
  ultimately show ?thesis by (simp only: is_valid_checksum_def)
qed

lemma psize_new_paket: "4 \<le> sz \<Longrightarrow> psize (new_paket b sz) = min sz (4 + unat (b 2))"
  by (simp add: new_paket_def Let_def min_def)

lemma new_paket_cong:
  assumes sz: "4 \<le> sz" and eq: "\<forall>i<psize (new_paket b sz). b' i = b i"
  shows "psize (new_paket b' sz) = psize (new_paket b sz)"
    and "p_is_valid (new_paket b' sz) = p_is_valid (new_paket b sz)"
    and "raw (new_paket b' sz) = raw (new_paket b sz)"
proof -
  have p4: "4 \<le> psize (new_paket b sz)"
    using sz by (simp add: psize_new_paket)
  then have b2: "b' 2 = b 2" using eq by simp
  show ps: "psize (new_paket b' sz) = psize (new_paket b sz)"
    using sz by (simp add: psize_new_paket b2)
  have "is_valid_checksum b' (psize (new_paket b sz))
          = is_valid_checksum b (psize (new_paket b sz))"
    using eq p4 by (intro is_valid_checksum_cong) simp_all
  moreover have "p_is_valid (new_paket c sz) = is_valid_checksum c (psize (new_paket c sz))"
    for c
    using sz by (simp add: new_paket_def Let_def)
  ultimately show "p_is_valid (new_paket b' sz) = p_is_valid (new_paket b sz)"
    using ps by simp
  have "pbuf (new_paket c sz) = c" for c
    by (simp add: new_paket_def Let_def)
  then show "raw (new_paket b' sz) = raw (new_paket b sz)"
    using eq by (simp add: raw_def ps)
qed

text \<open>The round of \<open>got_frame\<close> at an invalid slice.\<close>

lemma got_frame_invalid:
  assumes "4 \<le> sz" and "\<not> p_is_valid (new_paket b sz)"
  shows "got_frame t b sz k
           = (if first_frame k then (k\<lparr>pkt := new_paket b sz, first_frame := False\<rparr>, [])
              else (k\<lparr>pkt := new_paket b sz\<rparr>, [Dump ''ignoring'' (raw (new_paket b sz))]))"
  using assms by (subst got_frame.simps) (simp add: Let_def print_def raw_def)

text \<open>
  Claim C9. At any round of the loop of \<open>got_frame\<close> (any state \<open>k\<close>, any rest \<open>b\<close> of
  the buffer with \<open>sz \<ge> 4\<close> bytes left) at which the frame slice fails the checksum,
  \<open>got_frame\<close> returns there: nothing but the packet and the first-frame flag of the
  state changes, and the only effect is the "ignoring" dump of the raw bytes of the slice
  (its \<open>min sz (4 + length byte)\<close> bytes, checksum included), which is left out when this is
  the first frame seen since startup. No later frame of the buffer is decoded: the result
  is the same for every buffer \<open>b'\<close> that agrees with \<open>b\<close> on the slice, whatever follows.
\<close>

theorem got_frame_stops_at_invalid:
  assumes sz: "4 \<le> sz" and inv: "\<not> p_is_valid (new_paket b sz)"
  shows "got_frame t b sz k
           = (if first_frame k then (k\<lparr>pkt := new_paket b sz, first_frame := False\<rparr>, [])
              else (k\<lparr>pkt := new_paket b sz\<rparr>,
                    [Dump ''ignoring'' (map b [0..<min sz (4 + unat (b 2))])]))
       \<and> ((\<forall>i<min sz (4 + unat (b 2)). b' i = b i) \<longrightarrow>
            snd (got_frame t b' sz k) = snd (got_frame t b sz k)
            \<and> (fst (got_frame t b' sz k))\<lparr>pkt := pkt k\<rparr>
                = (fst (got_frame t b sz k))\<lparr>pkt := pkt k\<rparr>)"
proof (intro conjI impI)
  have r: "raw (new_paket b sz) = map b [0..<min sz (4 + unat (b 2))]"
    using sz by (simp add: raw_def psize_new_paket) (simp add: new_paket_def Let_def)
  show "got_frame t b sz k
           = (if first_frame k then (k\<lparr>pkt := new_paket b sz, first_frame := False\<rparr>, [])
              else (k\<lparr>pkt := new_paket b sz\<rparr>,
                    [Dump ''ignoring'' (map b [0..<min sz (4 + unat (b 2))])]))"
    using got_frame_invalid [OF sz inv, of t k] by (simp add: r)
next
  assume "\<forall>i<min sz (4 + unat (b 2)). b' i = b i"
  then have eq: "\<forall>i<psize (new_paket b sz). b' i = b i"
    using sz by (simp add: psize_new_paket)
  note c = new_paket_cong [OF sz eq]
  have inv': "\<not> p_is_valid (new_paket b' sz)" using inv c(2) by simp
  show "snd (got_frame t b' sz k) = snd (got_frame t b sz k)"
    by (simp add: got_frame_invalid [OF sz inv] got_frame_invalid [OF sz inv'] c(3))
  show "(fst (got_frame t b' sz k))\<lparr>pkt := pkt k\<rparr> = (fst (got_frame t b sz k))\<lparr>pkt := pkt k\<rparr>"
    by (simp add: got_frame_invalid [OF sz inv] got_frame_invalid [OF sz inv'])
qed

text \<open>At a concrete buffer: a valid keepalive, then a slice with a wrong checksum, then
  another valid keepalive. Only the first is counted as received, the second is dumped
  (or passed over in silence when it is the first frame), the third is never looked at:
  with zeros in its place the effects are the same.\<close>

theorem got_frame_stops_at_invalid_witness:
  "got_frame 30000000 (\<lambda>i. mem_of buf_bad_middle (4 + i)) 9 (kwl_init\<lparr>first_frame := False\<rparr>)
     = (kwl_init\<lparr>first_frame := False,
                  pkt := new_paket (\<lambda>i. mem_of buf_bad_middle (4 + i)) 9\<rparr>,
        [Dump ''ignoring'' [0x13, 0, 1, 0x14, 0x56]])
   \<and> got_frame 30000000 (\<lambda>i. mem_of buf_bad_middle (4 + i)) 9 kwl_init
     = (kwl_init\<lparr>first_frame := False,
                  pkt := new_paket (\<lambda>i. mem_of buf_bad_middle (4 + i)) 9\<rparr>, [])
   \<and> snd (got_frame 30000000 (mem_of [0x13, 0, 1, 0x14, 0x56]) 9
             (kwl_init\<lparr>first_frame := False\<rparr>))
     = [Dump ''ignoring'' [0x13, 0, 1, 0x14, 0x56]]
   \<and> snd (got_frame 30000000 (mem_of buf_bad_middle) 13 kwl_init)
     = [Dump ''ignoring'' [0x13, 0, 1, 0x14, 0x56]]
   \<and> pakets_received (fst (got_frame 30000000 (mem_of buf_bad_middle) 13 kwl_init)) = 1"
proof -
  let ?b = "\<lambda>i. mem_of buf_bad_middle (4 + i)"
  let ?b' = "mem_of [0x13, 0, 1, 0x14, 0x56]"
  let ?k = "kwl_init\<lparr>first_frame := False\<rparr>"
  have inv: "\<not> p_is_valid (new_paket ?b 9)" by code_simp
  have m: "map ?b [0..<min 9 (4 + unat (?b 2))] = [0x13, 0, 1, 0x14, 0x56]"
    by code_simp
  have l: "min 9 (4 + unat (?b 2)) = 5" by code_simp
  have sz: "(4 :: nat) \<le> 9" by simp
  have same: "\<forall>i<min 9 (4 + unat (?b 2)). ?b' i = ?b i"
    unfolding l
  proof (intro allI impI)
    fix i :: nat
    assume "i < 5"
    then consider "i = 0" | "i = 1" | "i = 2" | "i = 3" | "i = 4" by arith
    then show "?b' i = ?b i"
      by cases (simp_all add: mem_of_def buf_bad_middle_def)
  qed
  have whole: "snd (got_frame 30000000 (mem_of buf_bad_middle) 13 kwl_init)
                 = [Dump ''ignoring'' [0x13, 0, 1, 0x14, 0x56]]"
    "pakets_received (fst (got_frame 30000000 (mem_of buf_bad_middle) 13 kwl_init)) = 1"
    by code_simp+
  note t1 = got_frame_stops_at_invalid [OF sz inv, of 30000000 ?k ?b']
  note t2 = got_frame_stops_at_invalid [OF sz inv, of 30000000 kwl_init ?b']
  have f: "first_frame kwl_init" "\<not> first_frame ?k"
    by (simp_all add: kwl_init_def)
  have e1: "got_frame 30000000 ?b 9 ?k
              = (?k\<lparr>pkt := new_paket ?b 9\<rparr>, [Dump ''ignoring'' [0x13, 0, 1, 0x14, 0x56]])"
    using t1 [THEN conjunct1] f unfolding m by simp
  have e2: "got_frame 30000000 ?b 9 kwl_init
              = (kwl_init\<lparr>pkt := new_paket ?b 9, first_frame := False\<rparr>, [])"
    using t2 [THEN conjunct1] f by simp
  have e3: "snd (got_frame 30000000 ?b' 9 ?k) = [Dump ''ignoring'' [0x13, 0, 1, 0x14, 0x56]]"
    using t1 [THEN conjunct2] same e1 by simp
  show ?thesis
    unfolding whole e3 using e1 e2 by simp
qed

section \<open>The driver\<close>

text \<open>
  Claim C3. With the serial device opened and the lock file held by another instance
  (\<open>open\<close> returns -1), \<open>main\<close> prints "Cannot lock", never enters the loop and writes
  nothing to the bus, but returns \<open>retval\<close>, which is still 0: the exit status is 0, not
  the 1 that the claim states and that the failure of \<open>uart_open\<close> returns.
\<close>

theorem main_lock_conflict_status:
  "main w_locked
     = (0, [Print ''Helios KWL control'' [], Print ''Cannot lock /var/lock/ttyUSB0'' [],
            Print ''newline'' []], False)"
  by (simp add: main_def w_locked_def print_last_status_def kwl_init_def)

text \<open>
  The turn counter \<open>our_cnt\<close> is incremented by every call of \<open>our_turn\<close> and by
  nothing else: it counts the calls. Decoding keeps it, and keeps the termination flag.
\<close>

lemma if_eq_distrib: "((if c then x else y) = r) = (if c then x = r else y = r)"
  by simp

lemma our_turn_our_cnt: "our_cnt (fst (our_turn w k)) = our_cnt k + 1"
  unfolding our_turn_def Let_def
  by (simp add: if_distrib [of fst] if_distrib [of our_cnt] if_eq_distrib
        split del: if_split cong: if_cong)

lemma print_paket_our_cnt: "our_cnt (fst (print_paket t k)) = our_cnt k"
  unfolding print_paket_def Let_def
  by (simp add: if_distrib [of fst] if_distrib [of our_cnt] if_eq_distrib
        split del: if_split cong: if_cong)

lemma print_paket_terminate: "terminate (fst (print_paket t k)) = terminate k"
  unfolding print_paket_def Let_def
  by (simp add: if_distrib [of fst] if_distrib [of terminate] if_eq_distrib
        split del: if_split cong: if_cong)

lemma got_frame_keeps:
  "our_cnt (fst (got_frame t b sz k)) = our_cnt k
   \<and> terminate (fst (got_frame t b sz k)) = terminate k"
proof (induction t b sz k rule: got_frame.induct)
  case (1 time b sz k)
  let ?p = "new_paket b sz"
  show ?case
  proof (cases "sz < 4 \<or> \<not> p_is_valid ?p \<or> (\<not> is_start_status ?p \<and> \<not> is_start_addr ?p)")
    case True
    then show ?thesis
      by (auto simp add: got_frame.simps [of time b sz k] Let_def)
  next
    case False
    then have c: "\<not> sz < 4" "p_is_valid ?p" "\<not> (\<not> is_start_status ?p \<and> \<not> is_start_addr ?p)"
      by auto
    from c(2) have nn: "\<not> \<not> p_is_valid ?p" by simp
    note IH = "1.IH" [OF c(1) refl refl nn refl c(3) refl refl]
    show ?thesis
    proof (cases "is_start_status ?p")
      case True
      with c IH show ?thesis
        by (simp add: got_frame.simps [of time b sz k] Let_def print_paket_our_cnt
              print_paket_terminate)
    next
      case False
      with c IH show ?thesis
        by (simp add: got_frame.simps [of time b sz k] Let_def print_paket_our_cnt
              print_paket_terminate)
    qed
  qed
qed

text \<open>Rounds of the loop in which a byte arrives and no key is pending: after a gap,
  within a frame before the fourth byte, and at the fourth byte of the cue.\<close>

lemma peek_input_none: "peek_input [] = ((0, 0, 0), [])"
  by (simp add: peek_input_def)

lemma interactive_keys_none: "interactive_keys (0, 0, 0) k = (k, [Print ''clear line'' []], False)"
  by (simp add: interactive_keys_def)

lemma main_iter_gap:
  assumes "l_stdin s = []" and "25000000 \<le> dt"
  shows "main_iter (rx c dt w) s
           = (\<lparr>l_kwl = fst (got_frame dt (l_buf s) (l_idx s) (l_kwl s)), l_idx = 1,
               l_buf = (l_buf s)(0 := c), l_stdin = []\<rparr>,
              (if interactive (l_kwl s) then [Print ''clear line'' []] else [])
                @ snd (got_frame dt (l_buf s) (l_idx s) (l_kwl s)),
              False)"
  using assms
  by (simp add: main_iter_def rx_def Let_def peek_input_none interactive_keys_none
        signalled_def split_beta)

lemma main_iter_mid:
  assumes "l_stdin s = []" and "dt < 25000000" and "l_idx s < 3"
  shows "main_iter (rx c dt w) s
           = (\<lparr>l_kwl = l_kwl s, l_idx = l_idx s + 1, l_buf = (l_buf s)(l_idx s := c),
               l_stdin = []\<rparr>,
              (if interactive (l_kwl s) then [Print ''clear line'' []] else []),
              False)"
  using assms
  by (simp add: main_iter_def rx_def Let_def peek_input_none interactive_keys_none
        signalled_def split_beta)

lemma le32_cue:
  assumes "b 0 = 0x13" "b 1 = 0" "b 2 = 0" "b 3 = 0x14"
  shows "le32 b 0 = 0x14000013"
proof -
  have "le32 b 0 = ucast (b 0) OR push_bit 8 (ucast (b 1))
                     OR push_bit 16 (ucast (b 2)) OR push_bit 24 (ucast (b 3))"
    by (simp add: le32_def numeral_2_eq_2)
  then show ?thesis unfolding assms by simp
qed

lemma main_iter_cue:
  assumes "l_stdin s = []" and "dt < 25000000" and "l_idx s = 3"
    and "l_buf s 0 = 0x13" "l_buf s 1 = 0" "l_buf s 2 = 0"
  shows "main_iter (rx 0x14 dt w) s
           = (\<lparr>l_kwl = fst (our_turn w (l_kwl s)), l_idx = 4,
               l_buf = (l_buf s)(3 := 0x14), l_stdin = []\<rparr>,
              (if interactive (l_kwl s) then [Print ''clear line'' []] else [])
                @ snd (our_turn w (l_kwl s)),
              False)"
proof -
  have "le32 ((l_buf s)(3 := 0x14)) 0 = 0x14000013"
    using assms(4-6) by (intro le32_cue) simp_all
  with assms(1-3) show ?thesis
    by (simp add: main_iter_def rx_def Let_def peek_input_none interactive_keys_none
          signalled_def split_beta)
qed

text \<open>
  Claim C1, as amended. The cue is the four bytes \<open>13 00 00 14\<close>, the keepalive poll for
  address 0x13 (length byte 0; 0x14 is its checksum). When they arrive as the first four
  bytes after an idle-gap boundary (the first at least 25 ms after the byte before it, the
  others less than 25 ms apart), with no key pending and the loop not yet told to
  terminate, \<open>our_turn\<close> is invoked exactly once: the count of its calls is unchanged
  after the first three bytes, one more after the fourth, and still one more when at least
  25 ms of silence and any further byte \<open>c\<close> follow.
\<close>

theorem cue_fires_once:
  assumes gap0: "25000000 \<le> t0" and t1: "t1 < 25000000" and t2: "t2 < 25000000"
    and t3: "t3 < 25000000" and gap4: "25000000 \<le> t4"
    and nokey: "l_stdin s = []" and run: "\<not> terminate (l_kwl s)"
  shows "our_cnt (l_kwl (fst (main_loop [rx 0x13 t0 w0, rx 0 t1 w1, rx 0 t2 w2] s)))
           = our_cnt (l_kwl s)
       \<and> our_cnt (l_kwl (fst (main_loop [rx 0x13 t0 w0, rx 0 t1 w1, rx 0 t2 w2,
                                         rx 0x14 t3 w3] s)))
           = our_cnt (l_kwl s) + 1
       \<and> our_cnt (l_kwl (fst (main_loop [rx 0x13 t0 w0, rx 0 t1 w1, rx 0 t2 w2,
                                         rx 0x14 t3 w3, rx c t4 w4] s)))
           = our_cnt (l_kwl s) + 1"
proof -
  define k1 where "k1 = fst (got_frame t0 (l_buf s) (l_idx s) (l_kwl s))"
  have k1: "our_cnt k1 = our_cnt (l_kwl s)" "\<not> terminate k1"
    using got_frame_keeps [of t0 "l_buf s" "l_idx s" "l_kwl s"] run by (simp_all add: k1_def)
  define s1 where "s1 = \<lparr>l_kwl = k1, l_idx = 1, l_buf = (l_buf s)(0 := 0x13), l_stdin = []\<rparr>"
  define s2 where "s2 = \<lparr>l_kwl = k1, l_idx = 2, l_buf = (l_buf s)(0 := 0x13, 1 := 0),
                         l_stdin = []\<rparr>"
  define s3 where "s3 = \<lparr>l_kwl = k1, l_idx = 3, l_buf = (l_buf s)(0 := 0x13, 1 := 0, 2 := 0),
                         l_stdin = []\<rparr>"
  define k4 where "k4 = fst (our_turn w3 k1)"
  define s4 where "s4 = \<lparr>l_kwl = k4, l_idx = 4,
                         l_buf = (l_buf s)(0 := 0x13, 1 := 0, 2 := 0, 3 := 0x14),
                         l_stdin = []\<rparr>"
  define k5 where "k5 = fst (got_frame t4 (l_buf s4) 4 k4)"
  define s5 where "s5 = \<lparr>l_kwl = k5, l_idx = 1, l_buf = (l_buf s4)(0 := c), l_stdin = []\<rparr>"
  have k4: "our_cnt k4 = our_cnt (l_kwl s) + 1"
    by (simp add: k4_def our_turn_our_cnt k1)
  have k5: "our_cnt k5 = our_cnt (l_kwl s) + 1"
    using got_frame_keeps [of t4 "l_buf s4" 4 k4] by (simp add: k5_def k4)
  obtain o1 where i1: "main_iter (rx 0x13 t0 w0) s = (s1, o1, False)"
    using main_iter_gap [OF nokey gap0, of "0x13" w0] by (simp add: s1_def k1_def)
  obtain o2 where i2: "main_iter (rx 0 t1 w1) s1 = (s2, o2, False)"
    using main_iter_mid [of s1 t1 0 w1] t1 by (simp add: s1_def s2_def)
  obtain o3 where i3: "main_iter (rx 0 t2 w2) s2 = (s3, o3, False)"
    using main_iter_mid [of s2 t2 0 w2] t2 by (simp add: s2_def s3_def)
  obtain o4 where i4: "main_iter (rx 0x14 t3 w3) s3 = (s4, o4, False)"
    using main_iter_cue [of s3 t3 w3] t3 by (simp add: s3_def s4_def k4_def)
  obtain o5 where i5: "main_iter (rx c t4 w4) s4 = (s5, o5, False)"
    using main_iter_gap [of s4 t4 c w4] gap4 by (simp add: s4_def s5_def k5_def)
  have r: "\<not> terminate (l_kwl s1)" "\<not> terminate (l_kwl s2)" "\<not> terminate (l_kwl s3)"
    using k1 by (simp_all add: s1_def s2_def s3_def)
  have c: "our_cnt (l_kwl s3) = our_cnt (l_kwl s)" "our_cnt (l_kwl s4) = our_cnt (l_kwl s) + 1"
    "our_cnt (l_kwl s5) = our_cnt (l_kwl s) + 1"
    using k1 k4 k5 by (simp_all add: s3_def s4_def s5_def)
  show ?thesis
    using r c by (simp add: i1 i2 i3 i4 i5 split_beta)
qed

theorem cue_fires_once_witness:
  "our_cnt (l_kwl (fst (main_loop (take 3 cue_events) loop_start))) = 0
   \<and> our_cnt (l_kwl (fst (main_loop (take 4 cue_events) loop_start))) = 1
   \<and> our_cnt (l_kwl (fst (main_loop cue_events loop_start))) = 1"
proof -
  have h: "(25000000 :: int) \<le> 30000000" "(500000 :: int) < 25000000"
    "l_stdin loop_start = []" "\<not> terminate (l_kwl loop_start)"
    by (simp_all add: loop_start_def scan_loop_def kwl_init_def)
  have c: "our_cnt (l_kwl loop_start) = 0"
    by (simp add: loop_start_def scan_loop_def kwl_init_def)
  show ?thesis
    using cue_fires_once [OF h(1) h(2) h(2) h(2) h(1) h(3) h(4), of 5 5 5 5 "0x10" 5]
    by (simp add: cue_events_def c)
qed

text \<open>
  Claim C1 as stated fails: on the bytes \<open>13 00 01 14 56\<close> after a gap, followed by 30 ms
  of silence and a further byte, \<open>our_turn\<close> is never invoked (its call counter does not
  move) and nothing is written to the bus. The third byte is 01, the cue has 00 there.
\<close>

theorem spec_cue_counterexample:
  "our_cnt (l_kwl (fst (main_loop spec_cue_events loop_start))) = our_cnt (l_kwl loop_start)
   \<and> our_cnt (l_kwl (fst (main_loop spec_cue_events loop_start))) \<noteq> our_cnt (l_kwl loop_start) + 1
   \<and> writes_of (snd (main_loop spec_cue_events loop_start)) = []"
  by code_simp

end
